theory Spec2Isabelle
  imports
    Complex_Main
    "HOL-Library.Sublist"
    "HOL-Library.Char_ord"
    "HOL-Library.List_Lexorder"
    "HOL-Library.Option_ord"
begin

section \<open>Python values\<close>

text \<open>
  A Python \<open>str\<close> is a sequence of code points. The model writes it as a \<open>string\<close>
  whose characters are the code points U+0000 to U+00FF (Latin-1, which holds every
  letter of the Portuguese keywords the program compares with). Numbers (\<open>valor\<close>,
  the legal limits, the margins) are exact rationals: the program computes on binary
  floating point, and the model abstracts from its rounding.
\<close>

datatype py_error = TypeError | AttributeError | ValueError | OverflowError | IndexError

text \<open>
  A key of a contract dictionary is absent, present with the value \<open>None\<close>, or present
  with a value. \<open>get_or d\<close> is \<open>dict.get(key, d)\<close> and \<open>get_none\<close> is
  \<open>dict.get(key)\<close>; the result \<open>None\<close> is Python's \<open>None\<close>.
\<close>

datatype 'a entry = Absent | Null | Val 'a

fun get_or :: "'a \<Rightarrow> 'a entry \<Rightarrow> 'a option" where
  "get_or d Absent = Some d"
| "get_or d Null = None"
| "get_or d (Val v) = Some v"

fun get_none :: "'a entry \<Rightarrow> 'a option" where
  "get_none (Val v) = Some v"
| "get_none Absent = None"
| "get_none Null = None"

definition bind_err :: "py_error + 'a \<Rightarrow> ('a \<Rightarrow> py_error + 'b) \<Rightarrow> py_error + 'b" where
  "bind_err r f = (case r of Inl e \<Rightarrow> Inl e | Inr v \<Rightarrow> f v)"

text \<open>\<open>str.lower()\<close> on Latin-1 code points.\<close>

definition lower_char :: "char \<Rightarrow> char" where
  "lower_char c =
     (let n = (of_char c :: nat)
      in if (65 \<le> n \<and> n \<le> 90) \<or> (192 \<le> n \<and> n \<le> 222 \<and> n \<noteq> 215)
         then char_of (n + 32) else c)"

definition py_lower :: "string \<Rightarrow> string" where
  "py_lower s = map lower_char s"

text \<open>\<open>p in s\<close> on strings: \<open>p\<close> occurs in \<open>s\<close> as a contiguous run.\<close>

fun str_in :: "string \<Rightarrow> string \<Rightarrow> bool" where
  "str_in p [] = (p = [])"
| "str_in p (c # cs) = (prefix p (c # cs) \<or> str_in p cs)"

text \<open>\<open>any(kw in s for kw in kws)\<close>.\<close>

definition any_in :: "string list \<Rightarrow> string \<Rightarrow> bool" where
  "any_in kws s = list_ex (\<lambda>kw. str_in kw s) kws"

section \<open>Legal limits (class LimitesLegais)\<close>

definition AJUSTE_DIRETO_BENS_SERVICOS :: rat where "AJUSTE_DIRETO_BENS_SERVICOS = 75000"
definition AJUSTE_DIRETO_OBRAS :: rat where "AJUSTE_DIRETO_OBRAS = 150000"
definition CONSULTA_PREVIA_BENS_SERVICOS :: rat where "CONSULTA_PREVIA_BENS_SERVICOS = 214000"
definition CONSULTA_PREVIA_OBRAS :: rat where "CONSULTA_PREVIA_OBRAS = 548000"
definition CONCURSO_PUBLICO_BENS_SERVICOS :: rat where "CONCURSO_PUBLICO_BENS_SERVICOS = 214000"
definition CONCURSO_PUBLICO_OBRAS :: rat where "CONCURSO_PUBLICO_OBRAS = 548000"
definition UE_BENS_SERVICOS :: rat where "UE_BENS_SERVICOS = 140000"
definition UE_OBRAS :: rat where "UE_OBRAS = 5382000"

text \<open>
  The category test of both lookups: \<open>'obra' in tipo.lower() or 'empreitada' in
  tipo.lower()\<close>. A \<open>tipo\<close> that is \<open>None\<close> has no \<open>lower\<close>: AttributeError.
\<close>

definition eh_obra :: "string \<Rightarrow> bool" where
  "eh_obra tipo \<longleftrightarrow> str_in ''obra'' (py_lower tipo) \<or> str_in ''empreitada'' (py_lower tipo)"

definition get_limite_ajuste_direto :: "string option \<Rightarrow> py_error + rat" where
  "get_limite_ajuste_direto tipo_contrato =
     (case tipo_contrato of
        None \<Rightarrow> Inl AttributeError
      | Some t \<Rightarrow> Inr (if eh_obra t then AJUSTE_DIRETO_OBRAS else AJUSTE_DIRETO_BENS_SERVICOS))"

definition get_limite_consulta_previa :: "string option \<Rightarrow> py_error + rat" where
  "get_limite_consulta_previa tipo_contrato =
     (case tipo_contrato of
        None \<Rightarrow> Inl AttributeError
      | Some t \<Rightarrow> Inr (if eh_obra t then CONSULTA_PREVIA_OBRAS else CONSULTA_PREVIA_BENS_SERVICOS))"

section \<open>Contracts, findings and the detector configuration\<close>

text \<open>The keys of a contract dictionary that the detector reads.\<close>

record contrato =
  id_contrato :: "string entry"
  adjudicante :: "string entry"
  adjudicataria :: "string entry"
  valor :: "rat entry"
  data_contrato :: "string entry"
  data_publicacao :: "string entry"
  tipo_contrato :: "string entry"
  tipo_procedimento :: "string entry"
  objeto_contrato :: "string entry"

text \<open>
  A finding is a dictionary whose keys depend on the rule that built it; one constructor
  per shape, with the keys in the order of the source. The key \<open>descricao\<close> is a
  display text formatted from the other keys and is left out; the two findings of the
  procedure rule differ in that text only and are told apart by \<open>inadequado\<close>.
\<close>

datatype inadequado = AjusteAcimaLimite | ConsultaAcimaLimite

datatype padrao =
    ValorSuspeitoLimite string "string option" rat rat rat rat string
      \<comment> \<open>gravidade, id_contrato, valor, limite, distancia, percentagem_abaixo, procedimento\<close>
  | FracionamentoSuspeito "string option" "string option" nat rat int "string option list"
      \<comment> \<open>adjudicante, adjudicataria, num_contratos, valor_total, periodo_dias, contratos_ids\<close>
  | ContratosRepetidos nat rat
      \<comment> \<open>num_contratos, valor_total\<close>
  | ConcentracaoTemporal string nat rat
      \<comment> \<open>data_inicio, num_contratos, valor_total\<close>
  | ValorExatoSuspeito "string option" rat
      \<comment> \<open>id_contrato, valor\<close>
  | ValorCalculadoSuspeito "string option" rat rat
      \<comment> \<open>id_contrato, valor, limite_evitado\<close>
  | ProcedimentoInadequado inadequado "string option" rat string
      \<comment> \<open>id_contrato, valor, procedimento\<close>
  | PublicacaoVespera string string "string option" string
      \<comment> \<open>subtipo, gravidade, id_contrato, data\<close>

fun tipo :: "padrao \<Rightarrow> string" where
  "tipo (ValorSuspeitoLimite g i v l d p pr) = ''valor_suspeito_limite''"
| "tipo (FracionamentoSuspeito a b n v d ids) = ''fracionamento_suspeito''"
| "tipo (ContratosRepetidos n v) = ''contratos_repetidos''"
| "tipo (ConcentracaoTemporal d n v) = ''concentracao_temporal''"
| "tipo (ValorExatoSuspeito i v) = ''valor_exato_suspeito''"
| "tipo (ValorCalculadoSuspeito i v l) = ''valor_calculado_suspeito''"
| "tipo (ProcedimentoInadequado k i v pr) = ''procedimento_inadequado''"
| "tipo (PublicacaoVespera s g i d) = ''publicacao_vespera''"


record config =
  cfg_detectar_valores_suspeitos :: bool
  cfg_margem_suspeita_percentagem :: rat
  cfg_margem_alta_suspeita_percentagem :: rat
  cfg_detectar_fracionamento :: bool
  cfg_janela_fracionamento_dias :: int
  cfg_min_contratos_fracionamento :: int
  cfg_detectar_contratos_repetidos :: bool
  cfg_min_contratos_repetidos :: int
  cfg_detectar_concentracao_temporal :: bool
  cfg_janela_concentracao_dias :: int
  cfg_min_contratos_concentracao :: int
  cfg_detectar_valores_redondos :: bool
  cfg_valores_redondos_suspeitos :: "rat list"
  cfg_detectar_procedimento_inadequado :: bool
  cfg_detectar_vesperas_feriados :: bool
  cfg_detectar_finais_mandato :: bool

definition default_config :: config where
  "default_config = \<lparr>
     cfg_detectar_valores_suspeitos = True,
     cfg_margem_suspeita_percentagem = 5,
     cfg_margem_alta_suspeita_percentagem = 1,
     cfg_detectar_fracionamento = True,
     cfg_janela_fracionamento_dias = 365,
     cfg_min_contratos_fracionamento = 3,
     cfg_detectar_contratos_repetidos = True,
     cfg_min_contratos_repetidos = 5,
     cfg_detectar_concentracao_temporal = True,
     cfg_janela_concentracao_dias = 30,
     cfg_min_contratos_concentracao = 10,
     cfg_detectar_valores_redondos = True,
     cfg_valores_redondos_suspeitos =
       [74900, 74950, 74990, 74999,
        149900, 149950, 149990, 149999,
        213900, 213950, 213990, 213999],
     cfg_detectar_procedimento_inadequado = True,
     cfg_detectar_vesperas_feriados = True,
     cfg_detectar_finais_mandato = True \<rparr>"

text \<open>
  A \<open>for contrato in contratos\<close> loop that extends \<open>padroes\<close>: the findings of each
  contract in order, and the first exception ends the loop.
\<close>

fun for_each :: "('a \<Rightarrow> py_error + 'b list) \<Rightarrow> 'a list \<Rightarrow> py_error + 'b list" where
  "for_each f [] = Inr []"
| "for_each f (c # cs) =
     bind_err (f c) (\<lambda>ps. bind_err (for_each f cs) (\<lambda>qs. Inr (ps @ qs)))"

section \<open>Rule 1: values just below the direct-award limit\<close>

definition valor_suspeito :: "config \<Rightarrow> contrato \<Rightarrow> py_error + padrao list" where
  "valor_suspeito cfg c =
     (case get_or '''' (tipo_procedimento c) of
        None \<Rightarrow> Inl AttributeError
      | Some p \<Rightarrow>
          let procedimento = py_lower p in
          (case get_or 0 (valor c) of
             None \<Rightarrow> Inl TypeError
           | Some v \<Rightarrow>
               if v \<le> 0 then Inr []
               else
                 bind_err (get_limite_ajuste_direto (get_or '''' (tipo_contrato c)))
                   (\<lambda>limite_ajuste.
                 bind_err (get_limite_consulta_previa (get_or '''' (tipo_contrato c)))
                   (\<lambda>limite_consulta.
                    let margem_normal = limite_ajuste * (cfg_margem_suspeita_percentagem cfg / 100);
                        margem_alta = limite_ajuste * (cfg_margem_alta_suspeita_percentagem cfg / 100)
                    in if limite_ajuste - margem_normal \<le> v \<and> v \<le> limite_ajuste
                       then
                         let distancia = limite_ajuste - v;
                             percentagem = (distancia / limite_ajuste) * 100;
                             gravidade0 = (if distancia \<le> margem_alta then ''alta'' else ''media'');
                             gravidade1 = (if str_in ''ajuste'' procedimento then ''alta''
                                           else gravidade0)
                         in Inr [ValorSuspeitoLimite gravidade1 (get_none (id_contrato c)) v
                                   limite_ajuste distancia percentagem procedimento]
                       else Inr []))))"

definition detectar_valores_suspeitos :: "config \<Rightarrow> contrato list \<Rightarrow> py_error + padrao list" where
  "detectar_valores_suspeitos cfg contratos = for_each (valor_suspeito cfg) contratos"

section \<open>Rule 5: exact and calculated values\<close>

text \<open>
  The inner loop \<open>for limite in [75000, 150000, 214000, 548000]\<close>; the comparison of
  a \<open>valor\<close> that is \<open>None\<close> with a number raises TypeError at its first round.
\<close>

definition valor_calculado :: "contrato \<Rightarrow> rat \<Rightarrow> rat \<Rightarrow> padrao list" where
  "valor_calculado c v limite =
     (if limite - 100 \<le> v \<and> v < limite
      then (let diferenca = limite - v
            in if diferenca \<in> set [1, 10, 50, 100]
               then [ValorCalculadoSuspeito (get_none (id_contrato c)) v limite]
               else [])
      else [])"

definition valor_redondo :: "config \<Rightarrow> contrato \<Rightarrow> py_error + padrao list" where
  "valor_redondo cfg c =
     (case get_or 0 (valor c) of
        None \<Rightarrow> Inl TypeError
      | Some v \<Rightarrow>
          Inr ((if v \<in> set (cfg_valores_redondos_suspeitos cfg)
                then [ValorExatoSuspeito (get_none (id_contrato c)) v] else [])
               @ concat (map (valor_calculado c v) [75000, 150000, 214000, 548000])))"

definition detectar_valores_redondos :: "config \<Rightarrow> contrato list \<Rightarrow> py_error + padrao list" where
  "detectar_valores_redondos cfg contratos = for_each (valor_redondo cfg) contratos"


section \<open>Dates\<close>

text \<open>
  \<open>datetime.strptime(s, '%Y-%m-%d')\<close>. The format compiles to the regular expression
  \<open>(\d\d\d\d)-(1[0-2]|0[1-9]|[1-9])-(3[01]|[12]\d|0[1-9]|[1-9]| [1-9])\<close>, which must
  match the whole of \<open>s\<close>; the year is at least 1 and the day exists in its month.
  Everything else raises ValueError.
\<close>

definition is_digit :: "char \<Rightarrow> bool" where
  "is_digit c \<longleftrightarrow> CHR ''0'' \<le> c \<and> c \<le> CHR ''9''"

definition is_digit19 :: "char \<Rightarrow> bool" where
  "is_digit19 c \<longleftrightarrow> CHR ''1'' \<le> c \<and> c \<le> CHR ''9''"

definition digit :: "char \<Rightarrow> nat" where
  "digit c = of_char c - 48"

fun grupo_m :: "string \<Rightarrow> nat option" where
  "grupo_m [a] = (if is_digit19 a then Some (digit a) else None)"
| "grupo_m [a, b] =
     (if a = CHR ''1'' \<and> CHR ''0'' \<le> b \<and> b \<le> CHR ''2'' then Some (10 + digit b)
      else if a = CHR ''0'' \<and> is_digit19 b then Some (digit b)
      else None)"
| "grupo_m s = None"

fun grupo_d :: "string \<Rightarrow> nat option" where
  "grupo_d [a] = (if is_digit19 a then Some (digit a) else None)"
| "grupo_d [a, b] =
     (if a = CHR ''3'' \<and> CHR ''0'' \<le> b \<and> b \<le> CHR ''1'' then Some (30 + digit b)
      else if CHR ''1'' \<le> a \<and> a \<le> CHR ''2'' \<and> is_digit b then Some (10 * digit a + digit b)
      else if a = CHR ''0'' \<and> is_digit19 b then Some (digit b)
      else if a = CHR '' '' \<and> is_digit19 b then Some (digit b)
      else None)"
| "grupo_d s = None"

text \<open>The month group and what follows its hyphen: two characters are tried first.\<close>

fun separar_mes :: "string \<Rightarrow> (nat \<times> string) option" where
  "separar_mes (a # b # c # resto) =
     (case grupo_m [a, b] of
        Some m \<Rightarrow> if c = CHR ''-'' then Some (m, resto) else None
      | None \<Rightarrow>
          (case grupo_m [a] of
             Some m \<Rightarrow> if b = CHR ''-'' then Some (m, c # resto) else None
           | None \<Rightarrow> None))"
| "separar_mes s = None"

definition is_leap :: "nat \<Rightarrow> bool" where
  "is_leap y \<longleftrightarrow> y mod 4 = 0 \<and> (y mod 100 \<noteq> 0 \<or> y mod 400 = 0)"

definition days_in_month :: "nat \<Rightarrow> nat \<Rightarrow> nat" where
  "days_in_month y m =
     (if m = 2 then (if is_leap y then 29 else 28)
      else if m = 4 \<or> m = 6 \<or> m = 9 \<or> m = 11 then 30 else 31)"

record data =
  ano :: nat
  mes :: nat
  dia :: nat

definition strptime :: "string \<Rightarrow> py_error + data" where
  "strptime s =
     (case s of
        y1 # y2 # y3 # y4 # h # resto \<Rightarrow>
          if is_digit y1 \<and> is_digit y2 \<and> is_digit y3 \<and> is_digit y4 \<and> h = CHR ''-''
          then (case separar_mes resto of
                  None \<Rightarrow> Inl ValueError
                | Some (m, resto_d) \<Rightarrow>
                    (case grupo_d resto_d of
                       None \<Rightarrow> Inl ValueError
                     | Some d \<Rightarrow>
                         let y = 1000 * digit y1 + 100 * digit y2 + 10 * digit y3 + digit y4
                         in if 1 \<le> y \<and> d \<le> days_in_month y m
                            then Inr \<lparr> ano = y, mes = m, dia = d \<rparr>
                            else Inl ValueError))
          else Inl ValueError
      | _ \<Rightarrow> Inl ValueError)"

text \<open>\<open>toordinal\<close>: day 1 is 0001-01-01, day 3652059 is 9999-12-31.\<close>

definition days_before_year :: "nat \<Rightarrow> int" where
  "days_before_year y = (let p = int y - 1 in p * 365 + p div 4 - p div 100 + p div 400)"

definition days_before_month :: "nat \<Rightarrow> nat \<Rightarrow> int" where
  "days_before_month y m = int (sum_list (map (days_in_month y) [1..<m]))"

definition toordinal :: "data \<Rightarrow> int" where
  "toordinal dt = days_before_year (ano dt) + days_before_month (ano dt) (mes dt) + int (dia dt)"

text \<open>
  \<open>dt + timedelta(days=n)\<close>, as the ordinal of the result: a date outside years 1 to
  9999 raises OverflowError.
\<close>

definition mais_dias :: "data \<Rightarrow> int \<Rightarrow> py_error + int" where
  "mais_dias dt n =
     (let r = toordinal dt + n in if 1 \<le> r \<and> r \<le> 3652059 then Inr r else Inl OverflowError)"

definition weekday :: "data \<Rightarrow> int" where
  "weekday dt = (toordinal dt + 6) mod 7"

definition dois_digitos :: "nat \<Rightarrow> string" where
  "dois_digitos n = [char_of (48 + n div 10), char_of (48 + n mod 10)]"

text \<open>\<open>data.strftime('%m-%d')\<close>.\<close>

definition strftime_mes_dia :: "data \<Rightarrow> string" where
  "strftime_mes_dia dt = dois_digitos (mes dt) @ ''-'' @ dois_digitos (dia dt)"

text \<open>A string or \<open>None\<close> tested as a condition: \<open>None\<close> and the empty string are false.\<close>

fun truthy :: "string option \<Rightarrow> bool" where
  "truthy None = False"
| "truthy (Some s) = (s \<noteq> [])"

section \<open>Grouping, summing, filtering\<close>

text \<open>
  \<open>pares[par].append(contrato)\<close> on a \<open>defaultdict(list)\<close>: the groups stand in the
  order in which their keys first came, each with its members in the order of the input.
\<close>

fun inserir_par :: "'k \<Rightarrow> 'a \<Rightarrow> ('k \<times> 'a list) list \<Rightarrow> ('k \<times> 'a list) list" where
  "inserir_par k x [] = [(k, [x])]"
| "inserir_par k x ((k', xs) # resto) =
     (if k = k' then (k', xs @ [x]) # resto else (k', xs) # inserir_par k x resto)"

fun agrupar :: "('a \<Rightarrow> py_error + 'k) \<Rightarrow> 'a list \<Rightarrow> ('k \<times> 'a list) list
    \<Rightarrow> py_error + ('k \<times> 'a list) list" where
  "agrupar f [] pares = Inr pares"
| "agrupar f (c # cs) pares = bind_err (f c) (\<lambda>k. agrupar f cs (inserir_par k c pares))"

text \<open>\<open>sum(c.get('valor', 0) for c in cs)\<close>: adding \<open>None\<close> raises TypeError.\<close>

fun soma_valores :: "contrato list \<Rightarrow> rat \<Rightarrow> py_error + rat" where
  "soma_valores [] acc = Inr acc"
| "soma_valores (c # cs) acc =
     (case get_or 0 (valor c) of
        None \<Rightarrow> Inl TypeError
      | Some v \<Rightarrow> soma_valores cs (acc + v))"

text \<open>A list comprehension with a condition that may raise.\<close>

fun filtrar :: "('a \<Rightarrow> py_error + bool) \<Rightarrow> 'a list \<Rightarrow> py_error + 'a list" where
  "filtrar f [] = Inr []"
| "filtrar f (c # cs) =
     bind_err (f c) (\<lambda>b. bind_err (filtrar f cs) (\<lambda>r. Inr (if b then c # r else r)))"

text \<open>
  \<open>datetime.strptime(c['data_contrato'], '%Y-%m-%d') <= data_fim\<close>, for a contract
  whose date is a string.
\<close>

definition ate :: "int \<Rightarrow> string \<Rightarrow> py_error + bool" where
  "ate data_fim s = bind_err (strptime s) (\<lambda>dt. Inr (toordinal dt \<le> data_fim))"

definition chave_data :: "contrato \<Rightarrow> string" where
  "chave_data c = (case get_or '''' (data_contrato c) of Some s \<Rightarrow> s | None \<Rightarrow> '''')"

section \<open>Rule 2: fractioning\<close>

definition par_fracionamento ::
    "contrato \<Rightarrow> py_error + (string option \<times> string option \<times> string option \<times> string)" where
  "par_fracionamento c =
     (case get_or '''' (objeto_contrato c) of
        None \<Rightarrow> Inl TypeError
      | Some obj \<Rightarrow>
          Inr (get_or '''' (adjudicante c), get_or '''' (adjudicataria c),
               get_or '''' (tipo_contrato c), take 50 obj))"

text \<open>
  \<open>contratos_par.sort(key=lambda x: x.get('data_contrato', ''))\<close>: a stable sort of the
  group's own list. Strings compare by code points; a key that is \<open>None\<close> compares
  with nothing, and a sort of two or more elements compares every key: TypeError.
\<close>

definition ordenar_por_data :: "contrato list \<Rightarrow> py_error + contrato list" where
  "ordenar_por_data cs =
     (if 2 \<le> length cs \<and> list_ex (\<lambda>c. data_contrato c = Null) cs
      then Inl TypeError
      else Inr (sort_key chave_data cs))"

definition na_janela_frac :: "int \<Rightarrow> contrato \<Rightarrow> py_error + bool" where
  "na_janela_frac dt_fim c =
     (if truthy (get_none (data_contrato c)) then ate dt_fim (chave_data c) else Inr False)"

text \<open>
  The loop \<open>for i, contrato in enumerate(contratos_par)\<close> over the sorted group, as a
  recursion on \<open>contratos_par[i:]\<close>; the \<open>break\<close> returns the one finding.
\<close>

fun janelas_fracionamento ::
    "config \<Rightarrow> string option \<Rightarrow> string option \<Rightarrow> contrato list \<Rightarrow> py_error + padrao list" where
  "janelas_fracionamento cfg par0 par1 [] = Inr []"
| "janelas_fracionamento cfg par0 par1 (c # resto) =
     (if \<not> truthy (get_none (data_contrato c)) then janelas_fracionamento cfg par0 par1 resto
      else
        bind_err (strptime (chave_data c)) (\<lambda>dt_inicio.
        bind_err (mais_dias dt_inicio (cfg_janela_fracionamento_dias cfg)) (\<lambda>dt_fim.
        bind_err (filtrar (na_janela_frac dt_fim) (c # resto)) (\<lambda>contratos_janela.
          if cfg_min_contratos_fracionamento cfg \<le> int (length contratos_janela)
          then
            bind_err (soma_valores contratos_janela 0) (\<lambda>valor_total.
              (case contratos_janela of
                 [] \<Rightarrow> Inl IndexError
               | c0 # _ \<Rightarrow>
                   bind_err (get_limite_ajuste_direto (get_or '''' (tipo_contrato c0))) (\<lambda>limite.
                     if limite < valor_total
                     then Inr [FracionamentoSuspeito par0 par1 (length contratos_janela)
                                 valor_total (cfg_janela_fracionamento_dias cfg)
                                 (map (\<lambda>c. get_none (id_contrato c)) contratos_janela)]
                     else janelas_fracionamento cfg par0 par1 resto)))
          else janelas_fracionamento cfg par0 par1 resto))))"

definition fracionamento_par ::
    "config \<Rightarrow> (string option \<times> string option \<times> string option \<times> string) \<times> contrato list
      \<Rightarrow> py_error + padrao list" where
  "fracionamento_par cfg g =
     (case g of ((par0, par1, par2, par3), contratos_par) \<Rightarrow>
        if int (length contratos_par) < cfg_min_contratos_fracionamento cfg then Inr []
        else bind_err (ordenar_por_data contratos_par)
               (\<lambda>ordenados. janelas_fracionamento cfg par0 par1 ordenados))"

definition detectar_fracionamento :: "config \<Rightarrow> contrato list \<Rightarrow> py_error + padrao list" where
  "detectar_fracionamento cfg contratos =
     bind_err (agrupar par_fracionamento contratos [])
       (\<lambda>pares. for_each (fracionamento_par cfg) pares)"

section \<open>Rule 3: repeated contracts\<close>

definition par_repetidos :: "contrato \<Rightarrow> py_error + (string option \<times> string option)" where
  "par_repetidos c = Inr (get_or '''' (adjudicante c), get_or '''' (adjudicataria c))"

definition repetidos_par ::
    "config \<Rightarrow> (string option \<times> string option) \<times> contrato list \<Rightarrow> py_error + padrao list" where
  "repetidos_par cfg g =
     (case g of (par, contratos_par) \<Rightarrow>
        if cfg_min_contratos_repetidos cfg \<le> int (length contratos_par)
        then bind_err (soma_valores contratos_par 0)
               (\<lambda>valor_total. Inr [ContratosRepetidos (length contratos_par) valor_total])
        else Inr [])"

definition detectar_contratos_repetidos :: "config \<Rightarrow> contrato list \<Rightarrow> py_error + padrao list" where
  "detectar_contratos_repetidos cfg contratos =
     bind_err (agrupar par_repetidos contratos [])
       (\<lambda>pares. for_each (repetidos_par cfg) pares)"

section \<open>Rule 4: concentration in time\<close>

text \<open>
  The loop over \<open>datas[i:]\<close>, the contracts with a date, sorted by the date string;
  the \<open>break\<close> returns the first window that is full.
\<close>

fun janelas_concentracao :: "config \<Rightarrow> contrato list \<Rightarrow> py_error + padrao list" where
  "janelas_concentracao cfg [] = Inr []"
| "janelas_concentracao cfg (c # resto) =
     bind_err (strptime (chave_data c)) (\<lambda>data_inicio.
     bind_err (mais_dias data_inicio (cfg_janela_concentracao_dias cfg)) (\<lambda>data_fim.
     bind_err (filtrar (\<lambda>c'. ate data_fim (chave_data c')) (c # resto)) (\<lambda>contratos_janela.
       if cfg_min_contratos_concentracao cfg \<le> int (length contratos_janela)
       then bind_err (soma_valores contratos_janela 0)
              (\<lambda>valor_total. Inr [ConcentracaoTemporal (chave_data c)
                                     (length contratos_janela) valor_total])
       else janelas_concentracao cfg resto)))"

definition detectar_concentracao_temporal :: "config \<Rightarrow> contrato list \<Rightarrow> py_error + padrao list" where
  "detectar_concentracao_temporal cfg contratos =
     (let datas = filter (\<lambda>c. truthy (get_none (data_contrato c))) contratos
      in if datas = [] then Inr []
         else janelas_concentracao cfg (sort_key chave_data datas))"

section \<open>Rule 6: procedure against value\<close>

definition procedimento_inadequado :: "contrato \<Rightarrow> py_error + padrao list" where
  "procedimento_inadequado c =
     (case get_or '''' (tipo_procedimento c) of
        None \<Rightarrow> Inl AttributeError
      | Some p \<Rightarrow>
          let procedimento = py_lower p in
          (case get_or 0 (valor c) of
             None \<Rightarrow> Inl TypeError
           | Some v \<Rightarrow>
               if v \<le> 0 \<or> procedimento = [] then Inr []
               else
                 bind_err (get_limite_ajuste_direto (get_or '''' (tipo_contrato c)))
                   (\<lambda>limite_ajuste.
                 bind_err (get_limite_consulta_previa (get_or '''' (tipo_contrato c)))
                   (\<lambda>limite_consulta.
                    Inr ((if str_in ''ajuste'' procedimento \<and> limite_ajuste < v
                          then [ProcedimentoInadequado AjusteAcimaLimite
                                  (get_none (id_contrato c)) v procedimento]
                          else [])
                         @ (if str_in ''consulta'' procedimento \<and> limite_consulta < v
                            then [ProcedimentoInadequado ConsultaAcimaLimite
                                    (get_none (id_contrato c)) v procedimento]
                            else []))))))"

definition detectar_procedimento_inadequado :: "config \<Rightarrow> contrato list \<Rightarrow> py_error + padrao list" where
  "detectar_procedimento_inadequado cfg contratos = for_each procedimento_inadequado contratos"

section \<open>Rule 7: publication on a Friday or a holiday\<close>

definition feriados :: "string list" where
  "feriados = [''01-01'', ''04-25'', ''05-01'', ''06-10'', ''08-15'',
               ''10-05'', ''11-01'', ''12-01'', ''12-08'', ''12-25'']"

text \<open>
  \<open>contrato.get('data_publicacao') or contrato.get('data_contrato')\<close>, and the body
  under \<open>try\<close>: whatever \<open>strptime\<close> raises is caught and the contract is passed over.
\<close>

definition vespera :: "contrato \<Rightarrow> py_error + padrao list" where
  "vespera c =
     (let data_str = (if truthy (get_none (data_publicacao c))
                      then get_none (data_publicacao c)
                      else get_none (data_contrato c))
      in case data_str of
           None \<Rightarrow> Inr []
         | Some s \<Rightarrow>
             if s = [] then Inr []
             else (case strptime s of
                     Inl e \<Rightarrow> Inr []
                   | Inr dt \<Rightarrow>
                       Inr ((if weekday dt = 4
                             then [PublicacaoVespera ''fim_semana'' ''baixa''
                                     (get_none (id_contrato c)) s]
                             else [])
                            @ (if strftime_mes_dia dt \<in> set feriados
                               then [PublicacaoVespera ''feriado'' ''media''
                                       (get_none (id_contrato c)) s]
                               else []))))"

definition detectar_vesperas_feriados :: "config \<Rightarrow> contrato list \<Rightarrow> py_error + padrao list" where
  "detectar_vesperas_feriados cfg contratos = for_each vespera contratos"

section \<open>The analysis\<close>

text \<open>
  \<open>analisar_contratos\<close>: each enabled rule in turn extends \<open>padroes\<close>; an exception
  of a rule leaves the function. The parameter \<open>figura_id\<close> is not read by the body.
\<close>

definition quando :: "bool \<Rightarrow> py_error + padrao list \<Rightarrow> padrao list \<Rightarrow> py_error + padrao list" where
  "quando b rule padroes = (if b then bind_err rule (\<lambda>ps. Inr (padroes @ ps)) else Inr padroes)"

definition analisar_contratos :: "config \<Rightarrow> contrato list \<Rightarrow> py_error + padrao list" where
  "analisar_contratos cfg contratos =
     bind_err (quando (cfg_detectar_valores_suspeitos cfg)
                 (detectar_valores_suspeitos cfg contratos) []) (\<lambda>p1.
     bind_err (quando (cfg_detectar_fracionamento cfg)
                 (detectar_fracionamento cfg contratos) p1) (\<lambda>p2.
     bind_err (quando (cfg_detectar_contratos_repetidos cfg)
                 (detectar_contratos_repetidos cfg contratos) p2) (\<lambda>p3.
     bind_err (quando (cfg_detectar_concentracao_temporal cfg)
                 (detectar_concentracao_temporal cfg contratos) p3) (\<lambda>p4.
     bind_err (quando (cfg_detectar_valores_redondos cfg)
                 (detectar_valores_redondos cfg contratos) p4) (\<lambda>p5.
     bind_err (quando (cfg_detectar_procedimento_inadequado cfg)
                 (detectar_procedimento_inadequado cfg contratos) p5) (\<lambda>p6.
     quando (cfg_detectar_vesperas_feriados cfg)
       (detectar_vesperas_feriados cfg contratos) p6))))))"

section \<open>The repository\<close>

text \<open>
  The tables of the SQLite store, each a list of its rows in the order of their
  insertion, with the columns that the analysis reads. A column that may hold NULL is
  an \<open>option\<close>; \<open>dict(row)\<close> has every column as a key, with \<open>None\<close> for NULL.
\<close>

record contrato_row =
  row_id_contrato :: string
  row_adjudicante :: "string option"
  row_adjudicante_nif :: "string option"
  row_adjudicataria :: "string option"
  row_adjudicataria_nif :: "string option"
  row_valor :: "rat option"
  row_data_contrato :: "string option"
  row_data_publicacao :: "string option"
  row_tipo_contrato :: "string option"
  row_tipo_procedimento :: "string option"
  row_descricao :: "string option"
  row_objeto_contrato :: "string option"

record pessoa_row =
  p_id :: int
  p_nome :: string

record cargo_row =
  cg_pessoa_id :: "int option"
  cg_cargo :: string
  cg_entidade :: "string option"
  cg_ativo :: bool

record associacao_row =
  as_pessoa_id :: "int option"
  as_empresa_nome :: string
  as_tipo_relacao :: "string option"
  as_data_inicio :: "string option"
  as_ativo :: bool

record figura_row =
  f_id :: int
  f_nome :: string
  f_nif :: "string option"
  f_ativo :: bool

record conflito_row =
  ci_pessoa_id :: int
  ci_empresa_nome :: string
  ci_id_contrato :: string
  ci_tipo_conflito :: string
  ci_descricao :: string
  ci_gravidade :: string
  ci_verificado :: bool

record db =
  contratos :: "contrato_row list"
  pessoas :: "pessoa_row list"
  cargos_politicos :: "cargo_row list"
  associacoes_pessoa_empresa :: "associacao_row list"
  figuras_interesse :: "figura_row list"
  conflitos_interesse :: "conflito_row list"

text \<open>
  SQLite's \<open>LIKE\<close>: \<open>%\<close> stands for any run of characters, \<open>_\<close> for any one
  character, and letters compare without case in ASCII only. There is no escape
  character. The first argument is the pattern.
\<close>

definition ascii_lower :: "char \<Rightarrow> char" where
  "ascii_lower c =
     (let n = (of_char c :: nat) in if 65 \<le> n \<and> n \<le> 90 then char_of (n + 32) else c)"

fun like :: "string \<Rightarrow> string \<Rightarrow> bool" where
  "like [] s = (s = [])"
| "like (p # ps) s =
     (if p = CHR ''%'' then like ps s \<or> (case s of [] \<Rightarrow> False | c # cs \<Rightarrow> like (p # ps) cs)
      else (case s of
              [] \<Rightarrow> False
            | c # cs \<Rightarrow> (p = CHR ''_'' \<or> ascii_lower p = ascii_lower c) \<and> like ps cs))"

text \<open>\<open>coluna LIKE ?\<close> with the parameter \<open>f"%{x}%"\<close>; NULL matches nothing.\<close>

definition like_contem :: "string \<Rightarrow> string option \<Rightarrow> bool" where
  "like_contem x coluna =
     (case coluna of None \<Rightarrow> False | Some s \<Rightarrow> like (CHR ''%'' # x @ ''%'') s)"

text \<open>
  \<open>ORDER BY key DESC\<close>, as a stable sort; NULL is the least value and comes last.
  SQL leaves the order of rows with equal keys open.
\<close>

definition order_by_desc :: "('a \<Rightarrow> 'k::linorder) \<Rightarrow> 'a list \<Rightarrow> 'a list" where
  "order_by_desc key rows = rev (sort_key key (rev rows))"

text \<open>
  \<open>pesquisar_contratos(filtros)\<close> for the two filters its callers here pass,
  \<open>adjudicante\<close> and \<open>adjudicataria\<close>; \<open>None\<close> is a key that is not in \<open>filtros\<close>.
  A filter that is the empty string is not applied.
\<close>

definition filtro_like :: "string option \<Rightarrow> string option \<Rightarrow> bool" where
  "filtro_like filtro coluna =
     (case filtro of
        None \<Rightarrow> True
      | Some x \<Rightarrow> if x = [] then True else like_contem x coluna)"

definition pesquisar_contratos :: "db \<Rightarrow> string option \<Rightarrow> string option \<Rightarrow> contrato_row list" where
  "pesquisar_contratos bd f_adjudicante f_adjudicataria =
     order_by_desc row_data_contrato
       (filter (\<lambda>c. filtro_like f_adjudicante (row_adjudicante c)
                   \<and> filtro_like f_adjudicataria (row_adjudicataria c))
          (contratos bd))"

section \<open>Associations and conflicts of interest\<close>


definition listar_associacoes_pessoa :: "db \<Rightarrow> int \<Rightarrow> associacao_row list" where
  "listar_associacoes_pessoa bd pessoa_id =
     order_by_desc as_ativo (order_by_desc as_data_inicio
       (filter (\<lambda>a. as_pessoa_id a = Some pessoa_id) (associacoes_pessoa_empresa bd)))"

text \<open>
  A row of \<open>SELECT DISTINCT p.*, c.cargo, c.entidade FROM pessoas p JOIN cargos_politicos c
  ON p.id = c.pessoa_id WHERE c.ativo = 1\<close>: one for each active position of a person.
\<close>

record pessoa_politica =
  pp_id :: int
  pp_nome :: string
  pp_cargo :: string
  pp_entidade :: "string option"

text \<open>\<open>if pessoa_id:\<close> holds for an id that is neither \<open>None\<close> nor 0.\<close>

definition pessoas_politicas :: "db \<Rightarrow> int option \<Rightarrow> pessoa_politica list" where
  "pessoas_politicas bd pessoa_id =
     remdups (concat (map
       (\<lambda>p. map (\<lambda>c. \<lparr> pp_id = p_id p, pp_nome = p_nome p,
                       pp_cargo = cg_cargo c, pp_entidade = cg_entidade c \<rparr>)
               (filter (\<lambda>c. cg_pessoa_id c = Some (p_id p) \<and> cg_ativo c) (cargos_politicos bd)))
       (filter (\<lambda>p. case pessoa_id of
                       None \<Rightarrow> True
                     | Some i \<Rightarrow> i = 0 \<or> p_id p = i)
          (pessoas bd))))"

record conflito =
  k_tipo :: string
  k_pessoa_id :: int
  k_pessoa_nome :: string
  k_cargo :: string
  k_empresa :: string
  k_id_contrato :: string
  k_adjudicante :: string
  k_valor :: "rat option"
  k_gravidade :: string
  k_descricao :: string

definition entidades_publicas :: "string list" where
  "entidades_publicas =
     [''c'' @ [CHR 0xE2] @ ''mara'', ''junta'', ''assembleia'', ''governo'',
      ''minist'' @ [CHR 0xE9] @ ''rio'', ''instituto'', ''ag'' @ [CHR 0xEA] @ ''ncia'',
      ''autarquia'', ''munic'' @ [CHR 0xED] @ ''pio'', ''freguesia'']"

definition cargos_altos :: "string list" where
  "cargos_altos = [''ministro'', ''secret'' @ [CHR 0xE1] @ ''rio'', ''presidente'', ''deputado'']"

text \<open>A value in an f-string: \<open>None\<close> prints as \<open>None\<close>.\<close>

definition fmt :: "string option \<Rightarrow> string" where
  "fmt v = (case v of None \<Rightarrow> ''None'' | Some s \<Rightarrow> s)"

text \<open>
  The body of the innermost loop, up to the conflict it builds: \<open>None\<close> when the
  awarder is no public body. \<open>lower\<close> of an awarder or of a holding entity that is
  \<open>None\<close> raises AttributeError.
\<close>

definition conflito_de ::
    "pessoa_politica \<Rightarrow> associacao_row \<Rightarrow> contrato_row \<Rightarrow> py_error + conflito option" where
  "conflito_de pessoa assoc contrato =
     (case row_adjudicante contrato of
        None \<Rightarrow> Inl AttributeError
      | Some adj \<Rightarrow>
          let adjudicante = py_lower adj;
              eh_entidade_publica = any_in entidades_publicas adjudicante
          in if eh_entidade_publica
             then
               let gravidade0 = ''media'';
                   gravidade1 = (if any_in cargos_altos (py_lower (pp_cargo pessoa))
                                 then ''alta'' else gravidade0)
               in (case pp_entidade pessoa of
                     None \<Rightarrow> Inl AttributeError
                   | Some ent \<Rightarrow>
                       let gravidade2 = (if str_in (py_lower ent) adjudicante
                                         then ''critica'' else gravidade1)
                       in Inr (Some \<lparr>
                            k_tipo = ''cargo_politico_empresa_contratos'',
                            k_pessoa_id = pp_id pessoa,
                            k_pessoa_nome = pp_nome pessoa,
                            k_cargo = pp_cargo pessoa,
                            k_empresa = as_empresa_nome assoc,
                            k_id_contrato = row_id_contrato contrato,
                            k_adjudicante = adj,
                            k_valor = row_valor contrato,
                            k_gravidade = gravidade2,
                            k_descricao = pp_nome pessoa @ '' ('' @ pp_cargo pessoa @ '') tem ''
                              @ fmt (as_tipo_relacao assoc) @ '' em '' @ as_empresa_nome assoc
                              @ '', que tem contrato com '' @ adj \<rparr>))
             else Inr None)"

text \<open>
  \<open>_registar_conflito\<close>: a row is written unless one with the same person and
  contract is there.
\<close>

definition registar_conflito :: "conflito \<Rightarrow> db \<Rightarrow> db" where
  "registar_conflito conflito bd =
     (if list_ex (\<lambda>r. ci_pessoa_id r = k_pessoa_id conflito
                       \<and> ci_id_contrato r = k_id_contrato conflito) (conflitos_interesse bd)
      then bd
      else bd \<lparr> conflitos_interesse := conflitos_interesse bd @
             [\<lparr> ci_pessoa_id = k_pessoa_id conflito,
                ci_empresa_nome = k_empresa conflito,
                ci_id_contrato = k_id_contrato conflito,
                ci_tipo_conflito = k_tipo conflito,
                ci_descricao = k_descricao conflito,
                ci_gravidade = k_gravidade conflito,
                ci_verificado = False \<rparr>] \<rparr>)"

text \<open>
  The three nested loops of \<open>detectar_conflitos_interesse\<close>. The state is the list
  \<open>conflitos\<close> and the store; the first component is the exception that ended the
  loop, if one did. What was written before an exception stays written (each insertion
  is committed).
\<close>

type_synonym estado = "conflito list \<times> db"

fun para_contratos ::
    "pessoa_politica \<Rightarrow> associacao_row \<Rightarrow> contrato_row list \<Rightarrow> estado \<Rightarrow> py_error option \<times> estado" where
  "para_contratos pessoa assoc [] st = (None, st)"
| "para_contratos pessoa assoc (contrato # resto) st =
     (case conflito_de pessoa assoc contrato of
        Inl e \<Rightarrow> (Some e, st)
      | Inr None \<Rightarrow> para_contratos pessoa assoc resto st
      | Inr (Some conflito) \<Rightarrow>
          para_contratos pessoa assoc resto
            (fst st @ [conflito], registar_conflito conflito (snd st)))"

fun para_associacoes ::
    "pessoa_politica \<Rightarrow> associacao_row list \<Rightarrow> estado \<Rightarrow> py_error option \<times> estado" where
  "para_associacoes pessoa [] st = (None, st)"
| "para_associacoes pessoa (assoc # resto) st =
     (if \<not> as_ativo assoc then para_associacoes pessoa resto st
      else
        (case para_contratos pessoa assoc
                (pesquisar_contratos (snd st) None (Some (as_empresa_nome assoc))) st of
           (Some e, st') \<Rightarrow> (Some e, st')
         | (None, st') \<Rightarrow> para_associacoes pessoa resto st'))"

fun para_pessoas :: "pessoa_politica list \<Rightarrow> estado \<Rightarrow> py_error option \<times> estado" where
  "para_pessoas [] st = (None, st)"
| "para_pessoas (pessoa # resto) st =
     (case para_associacoes pessoa (listar_associacoes_pessoa (snd st) (pp_id pessoa)) st of
        (Some e, st') \<Rightarrow> (Some e, st')
      | (None, st') \<Rightarrow> para_pessoas resto st')"

definition detectar_conflitos_interesse :: "db \<Rightarrow> int option \<Rightarrow> (py_error + conflito list) \<times> db" where
  "detectar_conflitos_interesse bd pessoa_id =
     (case para_pessoas (pessoas_politicas bd pessoa_id) ([], bd) of
        (Some e, (conflitos, bd')) \<Rightarrow> (Inl e, bd')
      | (None, (conflitos, bd')) \<Rightarrow> (Inr conflitos, bd'))"

section \<open>Search by person\<close>





section \<open>Connections between figures of interest\<close>

definition listar_figuras_interesse :: "db \<Rightarrow> figura_row list" where
  "listar_figuras_interesse bd = sort_key f_nome (filter f_ativo (figuras_interesse bd))"

definition pesquisar_contratos_por_figura :: "db \<Rightarrow> int \<Rightarrow> contrato_row list" where
  "pesquisar_contratos_por_figura bd figura_id =
     (case filter (\<lambda>f. f_id f = figura_id) (figuras_interesse bd) of
        [] \<Rightarrow> []
      | figura # _ \<Rightarrow>
          order_by_desc row_data_contrato
            (filter (\<lambda>c. like_contem (f_nome figura) (row_adjudicante c)
                        \<or> like_contem (f_nome figura) (row_adjudicataria c)
                        \<or> (truthy (f_nif figura)
                            \<and> (row_adjudicante_nif c = f_nif figura
                                \<or> row_adjudicataria_nif c = f_nif figura)))
               (contratos bd)))"

text \<open>\<open>_extrair_entidades_contrato\<close>: the tuples (nome, nif, papel).\<close>

definition parte :: "string option \<Rightarrow> string option \<Rightarrow> string
    \<Rightarrow> (string \<times> string option \<times> string) list" where
  "parte nome nif papel =
     (case nome of
        None \<Rightarrow> []
      | Some n \<Rightarrow> if n = [] then [] else [(n, nif, papel)])"

definition extrair_entidades_contrato ::
    "contrato_row \<Rightarrow> (string \<times> string option \<times> string) list" where
  "extrair_entidades_contrato contrato =
     parte (row_adjudicante contrato) (row_adjudicante_nif contrato) ''adjudicante''
     @ parte (row_adjudicataria contrato) (row_adjudicataria_nif contrato) ''adjudicataria''"

record conexao =
  origem_id :: int
  destino_id :: int
  destino_nome :: string
  tipo_conexao :: string
  nivel :: int
  cx_contrato :: "string \<times> string option \<times> rat option \<times> string option"

text \<open>
  The search \<open>for fig in figuras_existentes\<close> for the first figure of that name,
  both lowered; \<open>None\<close> when there is none.
\<close>

fun resolver :: "figura_row list \<Rightarrow> string \<Rightarrow> int option" where
  "resolver [] entidade_nome = None"
| "resolver (fig # resto) entidade_nome =
     (if py_lower (f_nome fig) = py_lower entidade_nome then Some (f_id fig)
      else resolver resto entidade_nome)"

text \<open>
  The connections that one visited figure adds: the two \<open>for\<close> loops over its contracts
  and their parties. \<open>if entidade_id and ...\<close> is false for \<open>None\<close> and for the id 0.
\<close>

definition conexoes_de :: "db \<Rightarrow> int \<Rightarrow> int \<Rightarrow> int set \<Rightarrow> conexao list" where
  "conexoes_de bd atual_id nivel0 visitados =
     concat (map
       (\<lambda>contrato. concat (map
          (\<lambda>(entidade_nome, entidade_nif, papel).
             (case resolver (listar_figuras_interesse bd) entidade_nome of
                None \<Rightarrow> []
              | Some entidade_id \<Rightarrow>
                  if entidade_id \<noteq> 0 \<and> entidade_id \<noteq> atual_id \<and> entidade_id \<notin> visitados
                  then [\<lparr> origem_id = atual_id, destino_id = entidade_id,
                          destino_nome = entidade_nome, tipo_conexao = papel,
                          nivel = nivel0 + 1,
                          cx_contrato = (row_id_contrato contrato, row_descricao contrato,
                                         row_valor contrato, row_data_contrato contrato) \<rparr>]
                  else []))
          (extrair_entidades_contrato contrato)))
       (pesquisar_contratos_por_figura bd atual_id))"

text \<open>
  The \<open>while fila\<close> loop of \<open>detetar_conexoes\<close>. It may run as long as the queue
  lasts; \<open>None\<close> is a run that does not end.
\<close>

partial_function (option) explorar ::
    "db \<Rightarrow> int \<Rightarrow> (int \<times> int \<times> string option) list \<Rightarrow> int set \<Rightarrow> conexao list
      \<Rightarrow> conexao list option" where
  "explorar bd profundidade fila visitados conexoes =
     (case fila of
        [] \<Rightarrow> Some conexoes
      | (atual_id, nivel0, contrato_origem) # resto \<Rightarrow>
          if atual_id \<in> visitados \<or> profundidade \<le> nivel0
          then explorar bd profundidade resto visitados conexoes
          else
            let visitados' = insert atual_id visitados;
                novas = conexoes_de bd atual_id nivel0 visitados'
            in explorar bd profundidade
                 (resto @ (if nivel0 + 1 < profundidade
                           then map (\<lambda>k. (destino_id k, nivel0 + 1, Some (fst (cx_contrato k)))) novas
                           else []))
                 visitados' (conexoes @ novas))"

definition detetar_conexoes :: "db \<Rightarrow> int \<Rightarrow> int \<Rightarrow> conexao list option" where
  "detetar_conexoes bd figura_id profundidade =
     explorar bd profundidade [(figura_id, 0, None)] {} []"

section \<open>The conflicts found, apart from the store\<close>

text \<open>
  What the three loops append to \<open>conflitos\<close> up to the exception that ends them, if
  one does, computed without the writes. The loops are shown below to return this list
  and to register its conflicts in order.
\<close>

fun achar_contratos ::
    "pessoa_politica \<Rightarrow> associacao_row \<Rightarrow> contrato_row list \<Rightarrow> py_error option \<times> conflito list" where
  "achar_contratos pessoa assoc [] = (None, [])"
| "achar_contratos pessoa assoc (contrato # resto) =
     (case conflito_de pessoa assoc contrato of
        Inl e \<Rightarrow> (Some e, [])
      | Inr None \<Rightarrow> achar_contratos pessoa assoc resto
      | Inr (Some k) \<Rightarrow>
          (case achar_contratos pessoa assoc resto of (e, ks) \<Rightarrow> (e, k # ks)))"

fun achar_associacoes ::
    "db \<Rightarrow> pessoa_politica \<Rightarrow> associacao_row list \<Rightarrow> py_error option \<times> conflito list" where
  "achar_associacoes bd pessoa [] = (None, [])"
| "achar_associacoes bd pessoa (assoc # resto) =
     (if \<not> as_ativo assoc then achar_associacoes bd pessoa resto
      else
        (case achar_contratos pessoa assoc
                (pesquisar_contratos bd None (Some (as_empresa_nome assoc))) of
           (Some e, ks) \<Rightarrow> (Some e, ks)
         | (None, ks) \<Rightarrow>
             (case achar_associacoes bd pessoa resto of (e, ks') \<Rightarrow> (e, ks @ ks'))))"

fun achar_pessoas :: "db \<Rightarrow> pessoa_politica list \<Rightarrow> py_error option \<times> conflito list" where
  "achar_pessoas bd [] = (None, [])"
| "achar_pessoas bd (pessoa # resto) =
     (case achar_associacoes bd pessoa (listar_associacoes_pessoa bd (pp_id pessoa)) of
        (Some e, ks) \<Rightarrow> (Some e, ks)
      | (None, ks) \<Rightarrow> (case achar_pessoas bd resto of (e, ks') \<Rightarrow> (e, ks @ ks')))"

text \<open>The pair (person, contract) that \<open>_registar_conflito\<close> looks up.\<close>

definition chave_conflito :: "conflito \<Rightarrow> int \<times> string" where
  "chave_conflito k = (k_pessoa_id k, k_id_contrato k)"

definition chave_row :: "conflito_row \<Rightarrow> int \<times> string" where
  "chave_row r = (ci_pessoa_id r, ci_id_contrato r)"




text \<open>The closed form of the chain of assignments to \<open>gravidade\<close>.\<close>

definition gravidade_de :: "string \<Rightarrow> string \<Rightarrow> string \<Rightarrow> string" where
  "gravidade_de cargo ent adj =
     (if str_in (py_lower ent) (py_lower adj) then ''critica''
      else if any_in cargos_altos (py_lower cargo) then ''alta''
      else ''media'')"

text \<open>The conflict that the innermost loop builds, with the closed form of its severity.\<close>

definition conflito_com ::
    "pessoa_politica \<Rightarrow> associacao_row \<Rightarrow> contrato_row \<Rightarrow> string \<Rightarrow> string \<Rightarrow> conflito" where
  "conflito_com pessoa assoc contrato adj ent =
     \<lparr> k_tipo = ''cargo_politico_empresa_contratos'',
       k_pessoa_id = pp_id pessoa,
       k_pessoa_nome = pp_nome pessoa,
       k_cargo = pp_cargo pessoa,
       k_empresa = as_empresa_nome assoc,
       k_id_contrato = row_id_contrato contrato,
       k_adjudicante = adj,
       k_valor = row_valor contrato,
       k_gravidade = gravidade_de (pp_cargo pessoa) ent adj,
       k_descricao = pp_nome pessoa @ '' ('' @ pp_cargo pessoa @ '') tem ''
         @ fmt (as_tipo_relacao assoc) @ '' em '' @ as_empresa_nome assoc
         @ '', que tem contrato com '' @ adj \<rparr>"

section \<open>The analysis on a store of objects\<close>

text \<open>
  Python hands \<open>analisar_contratos\<close> a reference to a list object whose elements are
  references to dictionaries, and the rules build further lists that refer to the same
  dictionaries. The store holds the dictionaries and the list objects by address;
  \<open>prox\<close> is the next free address of a list. The rules write to the store in three
  ways: a new list object, \<open>append\<close> to a list and \<open>sort\<close> of a list in place; no
  statement of the rules assigns to a key of a dictionary. Slices and comprehensions
  that are only read afterwards are taken as values.
\<close>

record heap =
  dicts :: "nat \<Rightarrow> contrato"
  listas :: "nat \<Rightarrow> nat list"
  prox :: nat

definition nova_lista :: "nat list \<Rightarrow> heap \<Rightarrow> nat \<times> heap" where
  "nova_lista xs h =
     (prox h, h \<lparr> listas := (listas h) (prox h := xs), prox := Suc (prox h) \<rparr>)"

definition append_h :: "nat \<Rightarrow> nat \<Rightarrow> heap \<Rightarrow> heap" where
  "append_h g a h = h \<lparr> listas := (listas h) (g := listas h g @ [a]) \<rparr>"

text \<open>The dictionaries that the list object at an address refers to, in order.\<close>

definition conteudo :: "heap \<Rightarrow> nat \<Rightarrow> contrato list" where
  "conteudo h l = map (dicts h) (listas h l)"

text \<open>
  \<open>lista.sort(key=lambda x: x.get('data_contrato', ''))\<close> on the list object at \<open>g\<close>.
  When a comparison raises, Python leaves the list in some order; the model leaves it as
  it was.
\<close>

definition ordenar_por_data_h :: "nat \<Rightarrow> heap \<Rightarrow> (py_error + unit) \<times> heap" where
  "ordenar_por_data_h g h =
     (if 2 \<le> length (listas h g) \<and> list_ex (\<lambda>a. data_contrato (dicts h a) = Null) (listas h g)
      then (Inl TypeError, h)
      else (Inr (),
            h \<lparr> listas := (listas h) (g := sort_key (\<lambda>a. chave_data (dicts h a)) (listas h g)) \<rparr>))"

text \<open>
  \<open>pares[par].append(contrato)\<close> on a \<open>defaultdict(list)\<close>: \<open>pares\<close> maps a key to
  the address of its list object, made when the key first comes.
\<close>

fun agrupar_h :: "(contrato \<Rightarrow> py_error + 'k) \<Rightarrow> nat list \<Rightarrow> ('k \<times> nat) list \<Rightarrow> heap
    \<Rightarrow> (py_error + ('k \<times> nat) list) \<times> heap" where
  "agrupar_h f [] pares h = (Inr pares, h)"
| "agrupar_h f (a # resto) pares h =
     (case f (dicts h a) of
        Inl e \<Rightarrow> (Inl e, h)
      | Inr k \<Rightarrow>
          (case map_of pares k of
             Some g \<Rightarrow> agrupar_h f resto pares (append_h g a h)
           | None \<Rightarrow>
               (case nova_lista [] h of
                  (g, h') \<Rightarrow> agrupar_h f resto (pares @ [(k, g)]) (append_h g a h'))))"

fun fracionamento_pares_h ::
    "config \<Rightarrow> ((string option \<times> string option \<times> string option \<times> string) \<times> nat) list \<Rightarrow> heap
      \<Rightarrow> (py_error + padrao list) \<times> heap" where
  "fracionamento_pares_h cfg [] h = (Inr [], h)"
| "fracionamento_pares_h cfg (((par0, par1, par2, par3), g) # resto) h =
     (if int (length (listas h g)) < cfg_min_contratos_fracionamento cfg
      then fracionamento_pares_h cfg resto h
      else
        (case ordenar_por_data_h g h of
           (Inl e, h') \<Rightarrow> (Inl e, h')
         | (Inr u, h') \<Rightarrow>
             (case janelas_fracionamento cfg par0 par1 (conteudo h' g) of
                Inl e \<Rightarrow> (Inl e, h')
              | Inr ps \<Rightarrow>
                  (case fracionamento_pares_h cfg resto h' of
                     (Inl e, h'') \<Rightarrow> (Inl e, h'')
                   | (Inr qs, h'') \<Rightarrow> (Inr (ps @ qs), h'')))))"

definition detectar_fracionamento_h :: "config \<Rightarrow> nat \<Rightarrow> heap \<Rightarrow> (py_error + padrao list) \<times> heap" where
  "detectar_fracionamento_h cfg l h =
     (case agrupar_h par_fracionamento (listas h l) [] h of
        (Inl e, h') \<Rightarrow> (Inl e, h')
      | (Inr pares, h') \<Rightarrow> fracionamento_pares_h cfg pares h')"

definition detectar_contratos_repetidos_h ::
    "config \<Rightarrow> nat \<Rightarrow> heap \<Rightarrow> (py_error + padrao list) \<times> heap" where
  "detectar_contratos_repetidos_h cfg l h =
     (case agrupar_h par_repetidos (listas h l) [] h of
        (Inl e, h') \<Rightarrow> (Inl e, h')
      | (Inr pares, h') \<Rightarrow>
          (for_each (repetidos_par cfg) (map (\<lambda>(k, g). (k, conteudo h' g)) pares), h'))"

definition detectar_concentracao_temporal_h ::
    "config \<Rightarrow> nat \<Rightarrow> heap \<Rightarrow> (py_error + padrao list) \<times> heap" where
  "detectar_concentracao_temporal_h cfg l h =
     (case nova_lista (filter (\<lambda>a. truthy (get_none (data_contrato (dicts h a)))) (listas h l)) h of
        (d, h1) \<Rightarrow>
          if listas h1 d = [] then (Inr [], h1)
          else
            let h2 = h1 \<lparr> listas := (listas h1)
                          (d := sort_key (\<lambda>a. chave_data (dicts h1 a)) (listas h1 d)) \<rparr>
            in (janelas_concentracao cfg (conteudo h2 d), h2))"

text \<open>One enabled rule after the findings so far, with the store it leaves.\<close>

definition quando_h ::
    "bool \<Rightarrow> (heap \<Rightarrow> (py_error + padrao list) \<times> heap) \<Rightarrow> padrao list \<Rightarrow> heap
      \<Rightarrow> (py_error + padrao list) \<times> heap" where
  "quando_h b rule padroes h =
     (if b then (case rule h of
                   (Inl e, h') \<Rightarrow> (Inl e, h')
                 | (Inr ps, h') \<Rightarrow> (Inr (padroes @ ps), h'))
      else (Inr padroes, h))"

definition entao_h ::
    "(py_error + padrao list) \<times> heap \<Rightarrow> (padrao list \<Rightarrow> heap \<Rightarrow> (py_error + padrao list) \<times> heap)
      \<Rightarrow> (py_error + padrao list) \<times> heap" where
  "entao_h r f = (case r of (Inl e, h) \<Rightarrow> (Inl e, h) | (Inr ps, h) \<Rightarrow> f ps h)"

definition analisar_contratos_h :: "config \<Rightarrow> nat \<Rightarrow> heap \<Rightarrow> (py_error + padrao list) \<times> heap" where
  "analisar_contratos_h cfg l h =
     entao_h (quando_h (cfg_detectar_valores_suspeitos cfg)
                (\<lambda>h. (detectar_valores_suspeitos cfg (conteudo h l), h)) [] h) (\<lambda>p1 h1.
     entao_h (quando_h (cfg_detectar_fracionamento cfg)
                (detectar_fracionamento_h cfg l) p1 h1) (\<lambda>p2 h2.
     entao_h (quando_h (cfg_detectar_contratos_repetidos cfg)
                (detectar_contratos_repetidos_h cfg l) p2 h2) (\<lambda>p3 h3.
     entao_h (quando_h (cfg_detectar_concentracao_temporal cfg)
                (detectar_concentracao_temporal_h cfg l) p3 h3) (\<lambda>p4 h4.
     entao_h (quando_h (cfg_detectar_valores_redondos cfg)
                (\<lambda>h. (detectar_valores_redondos cfg (conteudo h l), h)) p4 h4) (\<lambda>p5 h5.
     entao_h (quando_h (cfg_detectar_procedimento_inadequado cfg)
                (\<lambda>h. (detectar_procedimento_inadequado cfg (conteudo h l), h)) p5 h5) (\<lambda>p6 h6.
     quando_h (cfg_detectar_vesperas_feriados cfg)
       (\<lambda>h. (detectar_vesperas_feriados cfg (conteudo h l), h)) p6 h6))))))"

text \<open>
  What a run keeps of the store: every dictionary, and every list object below the
  address \<open>b\<close>; addresses are only added.
\<close>

definition mantem :: "nat \<Rightarrow> heap \<Rightarrow> heap \<Rightarrow> bool" where
  "mantem b h h' \<longleftrightarrow>
     dicts h' = dicts h \<and> (\<forall>a. a < b \<longrightarrow> listas h' a = listas h a) \<and> prox h \<le> prox h'"

text \<open>The groups as the lists of dictionaries that their list objects refer to.\<close>

definition vista :: "heap \<Rightarrow> ('k \<times> nat) list \<Rightarrow> ('k \<times> contrato list) list" where
  "vista h pares = map (\<lambda>(k, g). (k, conteudo h g)) pares"

text \<open>
  The groups of a run: the keys differ, the list objects differ, and each was made by
  the run, at an address from \<open>b\<close> on.
\<close>

definition grupos_ok :: "nat \<Rightarrow> heap \<Rightarrow> ('k \<times> nat) list \<Rightarrow> bool" where
  "grupos_ok b h pares \<longleftrightarrow>
     distinct (map fst pares) \<and> distinct (map snd pares)
     \<and> list_all (\<lambda>kg. b \<le> snd kg \<and> snd kg < prox h) pares \<and> b \<le> prox h"

text \<open>A result with its store delivers \<open>x\<close> and keeps the store of the start.\<close>

definition cumpre :: "nat \<Rightarrow> heap \<Rightarrow> (py_error + padrao list) \<times> heap \<Rightarrow> py_error + padrao list \<Rightarrow> bool" where
  "cumpre b h0 r x \<longleftrightarrow> fst r = x \<and> mantem b h0 (snd r)"

section \<open>Example inputs\<close>

text \<open>
  The first contract of the repository's test of the detector, with the value as a
  parameter: a services contract by direct award, with no dates.
\<close>

definition contrato_servicos :: "rat \<Rightarrow> contrato" where
  "contrato_servicos v =
     \<lparr> id_contrato = Val ''TEST001'',
       adjudicante = Val (''C'' @ [CHR 0xE2] @ ''mara Municipal de Lisboa''),
       adjudicataria = Val ''Empresa Suspeita Lda'',
       valor = Val v,
       data_contrato = Absent, data_publicacao = Absent,
       tipo_contrato = Val (''Aquisi'' @ [CHR 0xE7, CHR 0xE3] @ ''o de Servi'' @ [CHR 0xE7] @ ''os''),
       tipo_procedimento = Val ''Ajuste Direto'',
       objeto_contrato = Absent \<rparr>"

text \<open>A contract whose date is written day first, as the portal prints it.\<close>

definition contrato_data_invalida :: contrato where
  "contrato_data_invalida = (contrato_servicos 1000) \<lparr> data_contrato := Val ''15/03/2024'' \<rparr>"

text \<open>A contract as \<open>dict(row)\<close> hands it over when the store has no dates for it: the keys are there, with \<open>None\<close>.\<close>

definition contrato_sem_data :: contrato where
  "contrato_sem_data = (contrato_servicos 1000) \<lparr> data_contrato := Null, data_publicacao := Null,
                                                   objeto_contrato := Val [] \<rparr>"

text \<open>The test contract dated on a Friday.\<close>

definition contrato_sexta :: contrato where
  "contrato_sexta = (contrato_servicos 74999) \<lparr> data_contrato := Val ''2024-01-19'' \<rparr>"

text \<open>
  The scenario of the repository's test of the associations: one person with one active
  position, two active associations, and one contract for each of the two companies.
\<close>

definition camara_lisboa :: string where
  "camara_lisboa = ''C'' @ [CHR 0xE2] @ ''mara Municipal de Lisboa''"

definition joao_silva :: string where
  "joao_silva = ''Jo'' @ [CHR 0xE3] @ ''o Silva''"

definition junta_belem :: string where
  "junta_belem = ''Junta de Freguesia de Bel'' @ [CHR 0xE9] @ ''m''"

definition presidente_da_camara :: string where
  "presidente_da_camara = ''Presidente da C'' @ [CHR 0xE2] @ ''mara''"

definition contrato_cenario ::
    "string \<Rightarrow> string \<Rightarrow> string \<Rightarrow> rat \<Rightarrow> string \<Rightarrow> contrato_row" where
  "contrato_cenario i a b v d =
     \<lparr> row_id_contrato = i, row_adjudicante = Some a, row_adjudicante_nif = None,
       row_adjudicataria = Some b, row_adjudicataria_nif = None, row_valor = Some v,
       row_data_contrato = Some d, row_data_publicacao = None,
       row_tipo_contrato = None, row_tipo_procedimento = None, row_descricao = None,
       row_objeto_contrato = None \<rparr>"

definition bd_cenario :: db where
  "bd_cenario =
     \<lparr> contratos =
         [contrato_cenario ''ASSOC001'' camara_lisboa ''Construtora Silva & Filhos Lda'' 250000
            ''2024-01-15'',
          contrato_cenario ''ASSOC002'' junta_belem ''Consultoria JPS Lda'' 50000 ''2024-02-01''],
       pessoas = [\<lparr> p_id = 1, p_nome = joao_silva \<rparr>],
       cargos_politicos =
         [\<lparr> cg_pessoa_id = Some 1, cg_cargo = presidente_da_camara,
            cg_entidade = Some camara_lisboa, cg_ativo = True \<rparr>],
       associacoes_pessoa_empresa =
         [\<lparr> as_pessoa_id = Some 1, as_empresa_nome = ''Construtora Silva & Filhos Lda'',
            as_tipo_relacao = Some ''dono'', as_data_inicio = None, as_ativo = True \<rparr>,
          \<lparr> as_pessoa_id = Some 1, as_empresa_nome = ''Consultoria JPS Lda'',
            as_tipo_relacao = Some ''socio'', as_data_inicio = None, as_ativo = True \<rparr>],
       figuras_interesse =
         [\<lparr> f_id = 1, f_nome = camara_lisboa, f_nif = None, f_ativo = True \<rparr>,
          \<lparr> f_id = 2, f_nome = ''Construtora Silva & Filhos Lda'', f_nif = None,
            f_ativo = True \<rparr>],
       conflitos_interesse = [] \<rparr>"


text \<open>
  The scenario with the one position added as \<open>adicionar_cargo_politico\<close> does when no
  holding entity is given: the entity is the empty string.
\<close>

definition bd_entidade_vazia :: db where
  "bd_entidade_vazia =
     bd_cenario \<lparr> cargos_politicos :=
       [\<lparr> cg_pessoa_id = Some 1, cg_cargo = ''Vereador'',
          cg_entidade = Some [], cg_ativo = True \<rparr>] \<rparr>"

text \<open>The same, with a second active position whose holding entity is another body.\<close>

definition bd_entidade_vazia_e_outra :: db where
  "bd_entidade_vazia_e_outra =
     bd_cenario \<lparr> cargos_politicos :=
       [\<lparr> cg_pessoa_id = Some 1, cg_cargo = ''Vereador'',
          cg_entidade = Some [], cg_ativo = True \<rparr>,
        \<lparr> cg_pessoa_id = Some 1, cg_cargo = ''Vereador'',
          cg_entidade = Some ''Assembleia Municipal do Porto'', cg_ativo = True \<rparr>] \<rparr>"

text \<open>
  A store with three contracts of one awarder, company, category and object, and at
  address 0 the list of the three, not in the order of their dates.
\<close>

definition heap_exemplo :: heap where
  "heap_exemplo =
     \<lparr> dicts = (\<lambda>a. (contrato_servicos 30000)
                      \<lparr> data_contrato :=
                          Val (if a = 0 then ''2024-03-01''
                               else if a = 1 then ''2024-01-15'' else ''2024-02-01'') \<rparr>),
       listas = (\<lambda>a. if a = 0 then [0, 1, 2] else []),
       prox = 1 \<rparr>"

section \<open>Properties of the legal limits\<close>

lemmas limites_defs =
  AJUSTE_DIRETO_BENS_SERVICOS_def AJUSTE_DIRETO_OBRAS_def
  CONSULTA_PREVIA_BENS_SERVICOS_def CONSULTA_PREVIA_OBRAS_def
  CONCURSO_PUBLICO_BENS_SERVICOS_def CONCURSO_PUBLICO_OBRAS_def
  UE_BENS_SERVICOS_def UE_OBRAS_def

text \<open>
  C1, as stated, fails: for goods and services the prior-consultation limit (214 000) is
  not below the EU limit (140 000), so the chain direct award < prior consultation < EU
  does not hold in both categories.
\<close>

theorem limites_cadeia_counterexample:
  "\<not> (AJUSTE_DIRETO_BENS_SERVICOS < CONSULTA_PREVIA_BENS_SERVICOS
      \<and> CONSULTA_PREVIA_BENS_SERVICOS < UE_BENS_SERVICOS
      \<and> AJUSTE_DIRETO_OBRAS < CONSULTA_PREVIA_OBRAS
      \<and> CONSULTA_PREVIA_OBRAS < UE_OBRAS)"
  by (simp add: limites_defs)

text \<open>
  C1, amended: the constants have the stated values; in both categories the direct-award
  limit is below the prior-consultation limit (also as the two lookups return them for
  any category text); for works the prior-consultation limit is below the EU limit; for
  goods and services the EU limit lies between the direct-award and the
  prior-consultation limit.
\<close>

theorem limites_ordem:
  "AJUSTE_DIRETO_BENS_SERVICOS = 75000 \<and> AJUSTE_DIRETO_OBRAS = 150000
   \<and> CONSULTA_PREVIA_BENS_SERVICOS = 214000 \<and> CONSULTA_PREVIA_OBRAS = 548000
   \<and> UE_BENS_SERVICOS = 140000 \<and> UE_OBRAS = 5382000
   \<and> AJUSTE_DIRETO_BENS_SERVICOS < CONSULTA_PREVIA_BENS_SERVICOS
   \<and> AJUSTE_DIRETO_OBRAS < CONSULTA_PREVIA_OBRAS
   \<and> CONSULTA_PREVIA_OBRAS < UE_OBRAS
   \<and> AJUSTE_DIRETO_BENS_SERVICOS < UE_BENS_SERVICOS
   \<and> UE_BENS_SERVICOS < CONSULTA_PREVIA_BENS_SERVICOS
   \<and> (\<forall>t. \<exists>a c. get_limite_ajuste_direto (Some t) = Inr a
              \<and> get_limite_consulta_previa (Some t) = Inr c \<and> a < c)"
  by (simp add: limites_defs get_limite_ajuste_direto_def get_limite_consulta_previa_def)

section \<open>Properties of the rules on one contract\<close>

lemma bind_err_simps [simp]:
  "bind_err (Inl e) f = Inl e"
  "bind_err (Inr v) f = f v"
  by (simp_all add: bind_err_def)

lemma for_each_single [simp]: "for_each f [c] = f c"
  by (cases "f c") simp_all

lemma consulta_bens_servicos:
  assumes "get_limite_ajuste_direto t = Inr AJUSTE_DIRETO_BENS_SERVICOS"
  shows "get_limite_consulta_previa t = Inr CONSULTA_PREVIA_BENS_SERVICOS"
  using assms
  by (auto simp: get_limite_ajuste_direto_def get_limite_consulta_previa_def limites_defs
      split: option.splits if_splits)

lemma valor_suspeito_74999:
  assumes "get_limite_ajuste_direto (get_or '''' (tipo_contrato c)) = Inr AJUSTE_DIRETO_BENS_SERVICOS"
    and "get_or '''' (tipo_procedimento c) = Some p"
    and "valor c = Val 74999"
  shows "valor_suspeito default_config c =
           Inr [ValorSuspeitoLimite ''alta'' (get_none (id_contrato c)) 74999 75000 1 (1 / 750)
                  (py_lower p)]"
  using assms consulta_bens_servicos [OF assms(1)]
  by (simp add: valor_suspeito_def default_config_def limites_defs Let_def)


lemma detectar_fracionamento_single:
  assumes "objeto_contrato c \<noteq> Null"
  shows "detectar_fracionamento default_config [c] = Inr []"
proof -
  obtain obj where "get_or '''' (objeto_contrato c) = Some obj"
    using assms by (cases "objeto_contrato c") simp_all
  then show ?thesis
    by (simp add: detectar_fracionamento_def par_fracionamento_def fracionamento_par_def
        default_config_def)
qed

lemma detectar_contratos_repetidos_single:
  "detectar_contratos_repetidos default_config [c] = Inr []"
  by (simp add: detectar_contratos_repetidos_def par_repetidos_def repetidos_par_def
      default_config_def)

lemma detectar_concentracao_temporal_single:
  assumes "\<not> truthy (get_none (data_contrato c))
           \<or> (\<exists>dt fim. strptime (chave_data c) = Inr dt \<and> mais_dias dt 30 = Inr fim)"
  shows "detectar_concentracao_temporal default_config [c] = Inr []"
proof (cases "truthy (get_none (data_contrato c))")
  case False
  then show ?thesis by (simp add: detectar_concentracao_temporal_def)
next
  case True
  with assms obtain dt fim where dt: "strptime (chave_data c) = Inr dt"
    and fim: "mais_dias dt 30 = Inr fim" by blast
  from True dt fim show ?thesis
    by (simp add: detectar_concentracao_temporal_def default_config_def ate_def Let_def)
qed

lemma detectar_valores_redondos_74999:
  assumes "valor c = Val 74999"
  shows "detectar_valores_redondos default_config [c] =
           Inr [ValorExatoSuspeito (get_none (id_contrato c)) 74999,
                ValorCalculadoSuspeito (get_none (id_contrato c)) 74999 75000]"
  using assms
  by (simp add: detectar_valores_redondos_def valor_redondo_def valor_calculado_def
      default_config_def)

lemma detectar_procedimento_inadequado_74999:
  assumes "get_limite_ajuste_direto (get_or '''' (tipo_contrato c)) = Inr AJUSTE_DIRETO_BENS_SERVICOS"
    and "get_or '''' (tipo_procedimento c) = Some p"
    and "valor c = Val 74999"
  shows "detectar_procedimento_inadequado default_config [c] = Inr []"
  using assms consulta_bens_servicos [OF assms(1)]
  by (simp add: detectar_procedimento_inadequado_def procedimento_inadequado_def
      limites_defs Let_def)

lemma vespera_returns: "\<exists>vs. vespera c = Inr vs"
  by (simp add: vespera_def Let_def split: option.splits sum.splits)

lemma vespera_sem_data:
  "\<not> truthy (get_none (data_publicacao c)) \<Longrightarrow> \<not> truthy (get_none (data_contrato c))
   \<Longrightarrow> vespera c = Inr []"
  by (cases "get_none (data_contrato c)") (simp_all add: vespera_def Let_def)

lemma default_flags:
  "cfg_detectar_valores_suspeitos default_config"
  "cfg_detectar_fracionamento default_config"
  "cfg_detectar_contratos_repetidos default_config"
  "cfg_detectar_concentracao_temporal default_config"
  "cfg_detectar_valores_redondos default_config"
  "cfg_detectar_procedimento_inadequado default_config"
  "cfg_detectar_vesperas_feriados default_config"
  by (simp_all add: default_config_def)

section \<open>Rule 1 at 74 999 and at 50 000\<close>

lemma contrato_servicos_bens:
  "get_limite_ajuste_direto (get_or '''' (tipo_contrato (contrato_servicos v)))
     = Inr AJUSTE_DIRETO_BENS_SERVICOS"
  by (simp add: contrato_servicos_def get_limite_ajuste_direto_def eh_obra_def py_lower_def
      lower_char_def)




section \<open>The whole analysis at 74 999\<close>

text \<open>
  C3, as stated, fails: the analysis of the one test contract of value 74 999 returns
  three findings, not two. Rule 5 gives two of them: the value is in the list of exact
  values, and it is 1 below the limit 75 000.
\<close>

theorem analisar_74999_counterexample:
  "analisar_contratos default_config [contrato_servicos 74999] =
     Inr [ValorSuspeitoLimite ''alta'' (Some ''TEST001'') 74999 75000 1 (1 / 750) ''ajuste direto'',
          ValorExatoSuspeito (Some ''TEST001'') 74999,
          ValorCalculadoSuspeito (Some ''TEST001'') 74999 75000]"
  by code_simp

text \<open>
  C3, amended: for one goods-and-services contract of value 74 999 whose date, if it has
  one, is a valid date at least 30 days before the end of year 9999, the analysis with
  the default configuration returns exactly three findings of rules 1 and 5 (one
  \<open>valor_suspeito_limite\<close> of rule 1, then \<open>valor_exato_suspeito\<close> and
  \<open>valor_calculado_suspeito\<close> of rule 5), followed by the findings of rule 7 on its
  date, of which there are none when the contract has no date.
\<close>

theorem analisar_74999_tres_padroes:
  assumes bens: "get_limite_ajuste_direto (get_or '''' (tipo_contrato c)) = Inr AJUSTE_DIRETO_BENS_SERVICOS"
    and proc: "get_or '''' (tipo_procedimento c) = Some p"
    and obj: "objeto_contrato c \<noteq> Null"
    and v: "valor c = Val 74999"
    and dt: "\<not> truthy (get_none (data_contrato c))
             \<or> (\<exists>dt fim. strptime (chave_data c) = Inr dt \<and> mais_dias dt 30 = Inr fim)"
  shows "\<exists>vs. vespera c = Inr vs
           \<and> analisar_contratos default_config [c] =
               Inr ([ValorSuspeitoLimite ''alta'' (get_none (id_contrato c)) 74999 75000 1 (1 / 750)
                       (py_lower p),
                     ValorExatoSuspeito (get_none (id_contrato c)) 74999,
                     ValorCalculadoSuspeito (get_none (id_contrato c)) 74999 75000] @ vs)
           \<and> (\<not> truthy (get_none (data_publicacao c)) \<and> \<not> truthy (get_none (data_contrato c))
                \<longrightarrow> vs = [])"
proof -
  obtain vs where vs: "vespera c = Inr vs" using vespera_returns by blast
  have r1: "detectar_valores_suspeitos default_config [c] =
              Inr [ValorSuspeitoLimite ''alta'' (get_none (id_contrato c)) 74999 75000 1 (1 / 750)
                     (py_lower p)]"
    using valor_suspeito_74999 [OF bens proc v] by (simp add: detectar_valores_suspeitos_def)
  have "analisar_contratos default_config [c] =
               Inr ([ValorSuspeitoLimite ''alta'' (get_none (id_contrato c)) 74999 75000 1 (1 / 750)
                       (py_lower p),
                     ValorExatoSuspeito (get_none (id_contrato c)) 74999,
                     ValorCalculadoSuspeito (get_none (id_contrato c)) 74999 75000] @ vs)"
    unfolding analisar_contratos_def quando_def
    by (simp add: default_flags r1 detectar_fracionamento_single [OF obj]
        detectar_contratos_repetidos_single detectar_concentracao_temporal_single [OF dt]
        detectar_valores_redondos_74999 [OF v]
        detectar_procedimento_inadequado_74999 [OF bens proc v]
        detectar_vesperas_feriados_def vs)
  moreover have "\<not> truthy (get_none (data_publicacao c)) \<and> \<not> truthy (get_none (data_contrato c))
                \<longrightarrow> vs = []"
    using vs vespera_sem_data [of c] by auto
  ultimately show ?thesis using vs by blast
qed

lemma strptime_sexta: "strptime ''2024-01-19'' = Inr \<lparr> ano = 2024, mes = 1, dia = 19 \<rparr>"
  by code_simp

lemma mais_dias_sexta: "mais_dias \<lparr> ano = 2024, mes = 1, dia = 19 \<rparr> 30 = Inr 738934"
  by code_simp

lemma vespera_sexta:
  "vespera contrato_sexta = Inr [PublicacaoVespera ''fim_semana'' ''baixa'' (Some ''TEST001'') ''2024-01-19'']"
  by code_simp

theorem analisar_74999_tres_padroes_witness:
  "analisar_contratos default_config [contrato_sexta] =
     Inr [ValorSuspeitoLimite ''alta'' (Some ''TEST001'') 74999 75000 1 (1 / 750) ''ajuste direto'',
          ValorExatoSuspeito (Some ''TEST001'') 74999,
          ValorCalculadoSuspeito (Some ''TEST001'') 74999 75000,
          PublicacaoVespera ''fim_semana'' ''baixa'' (Some ''TEST001'') ''2024-01-19'']"
proof -
  have bens: "get_limite_ajuste_direto (get_or '''' (tipo_contrato contrato_sexta)) = Inr AJUSTE_DIRETO_BENS_SERVICOS"
    using contrato_servicos_bens [of 74999] by (simp add: contrato_sexta_def contrato_servicos_def)
  have proc: "get_or '''' (tipo_procedimento contrato_sexta) = Some ''Ajuste Direto''"
    by (simp add: contrato_sexta_def contrato_servicos_def)
  have obj: "objeto_contrato contrato_sexta \<noteq> Null"
    by (simp add: contrato_sexta_def contrato_servicos_def)
  have v: "valor contrato_sexta = Val 74999"
    by (simp add: contrato_sexta_def contrato_servicos_def)
  have cd: "chave_data contrato_sexta = ''2024-01-19''"
    by (simp add: contrato_sexta_def contrato_servicos_def chave_data_def)
  have dt: "\<not> truthy (get_none (data_contrato contrato_sexta))
             \<or> (\<exists>dt fim. strptime (chave_data contrato_sexta) = Inr dt \<and> mais_dias dt 30 = Inr fim)"
    using strptime_sexta mais_dias_sexta cd by simp
  have lw: "py_lower ''Ajuste Direto'' = ''ajuste direto''" by code_simp
  have ids: "get_none (id_contrato contrato_sexta) = Some ''TEST001''"
    by (simp add: contrato_sexta_def contrato_servicos_def)
  from analisar_74999_tres_padroes [OF bens proc obj v dt] vespera_sexta lw ids
  show ?thesis by auto
qed

section \<open>Exceptions on dates\<close>

text \<open>
  C2 does not hold of the code: a contract with a date that \<open>strptime\<close> cannot
  read makes rule 4, and with it the analysis, raise ValueError, where rule 7 passes the
  same contract over; and three contracts of one group whose date is \<open>None\<close> make
  the sort of rule 2 raise TypeError.
\<close>

theorem analisar_excecao_datas:
  "analisar_contratos default_config [contrato_data_invalida] = Inl ValueError
   \<and> detectar_concentracao_temporal default_config [contrato_data_invalida] = Inl ValueError
   \<and> detectar_vesperas_feriados default_config [contrato_data_invalida] = Inr []
   \<and> analisar_contratos default_config [contrato_sem_data, contrato_sem_data, contrato_sem_data]
       = Inl TypeError
   \<and> detectar_fracionamento default_config [contrato_sem_data, contrato_sem_data, contrato_sem_data]
       = Inl TypeError"
  by code_simp


section \<open>Detection of conflicts: the loops and the store\<close>

lemma registar_conflito_base [simp]:
  "contratos (registar_conflito k bd) = contratos bd"
  "pessoas (registar_conflito k bd) = pessoas bd"
  "cargos_politicos (registar_conflito k bd) = cargos_politicos bd"
  "associacoes_pessoa_empresa (registar_conflito k bd) = associacoes_pessoa_empresa bd"
  "figuras_interesse (registar_conflito k bd) = figuras_interesse bd"
  by (simp_all add: registar_conflito_def)

lemma fold_registar_base [simp]:
  "contratos (fold registar_conflito ks bd) = contratos bd"
  "pessoas (fold registar_conflito ks bd) = pessoas bd"
  "cargos_politicos (fold registar_conflito ks bd) = cargos_politicos bd"
  "associacoes_pessoa_empresa (fold registar_conflito ks bd) = associacoes_pessoa_empresa bd"
  "figuras_interesse (fold registar_conflito ks bd) = figuras_interesse bd"
  by (induction ks arbitrary: bd) simp_all

lemma pesquisar_contratos_fold [simp]:
  "pesquisar_contratos (fold registar_conflito ks bd) x y = pesquisar_contratos bd x y"
  by (simp add: pesquisar_contratos_def)

lemma listar_associacoes_pessoa_fold [simp]:
  "listar_associacoes_pessoa (fold registar_conflito ks bd) i = listar_associacoes_pessoa bd i"
  by (simp add: listar_associacoes_pessoa_def)

lemma pessoas_politicas_fold [simp]:
  "pessoas_politicas (fold registar_conflito ks bd) sel = pessoas_politicas bd sel"
  by (simp add: pessoas_politicas_def)

lemma achar_associacoes_fold [simp]:
  "achar_associacoes (fold registar_conflito ks bd) p as = achar_associacoes bd p as"
  by (induction as) (simp_all split: prod.splits option.splits)

lemma achar_pessoas_fold [simp]:
  "achar_pessoas (fold registar_conflito ks bd) ps = achar_pessoas bd ps"
  by (induction ps) (simp_all split: prod.splits option.splits)

lemma para_contratos_achar:
  "para_contratos p a cs st =
     (fst (achar_contratos p a cs), fst st @ snd (achar_contratos p a cs),
      fold registar_conflito (snd (achar_contratos p a cs)) (snd st))"
proof (induction cs arbitrary: st)
  case Nil
  then show ?case by simp
next
  case (Cons c cs)
  show ?case
  proof (cases "conflito_de p a c")
    case (Inl e)
    then show ?thesis by simp
  next
    case (Inr r)
    then show ?thesis
      by (cases r) (simp_all add: Cons.IH split: prod.splits)
  qed
qed

lemma para_associacoes_achar:
  "para_associacoes p as st =
     (fst (achar_associacoes (snd st) p as), fst st @ snd (achar_associacoes (snd st) p as),
      fold registar_conflito (snd (achar_associacoes (snd st) p as)) (snd st))"
proof (induction as arbitrary: st)
  case Nil
  then show ?case by simp
next
  case (Cons a as)
  show ?case
  proof (cases "as_ativo a")
    case False
    then show ?thesis by (simp add: Cons.IH)
  next
    case True
    obtain e ks where ac: "achar_contratos p a
        (pesquisar_contratos (snd st) None (Some (as_empresa_nome a))) = (e, ks)"
      by (cases "achar_contratos p a (pesquisar_contratos (snd st) None (Some (as_empresa_nome a)))")
    show ?thesis
    proof (cases e)
      case None
      with True ac show ?thesis
        by (simp add: para_contratos_achar Cons.IH split: prod.splits)
    next
      case (Some err)
      with True ac show ?thesis
        by (simp add: para_contratos_achar)
    qed
  qed
qed

lemma para_pessoas_achar:
  "para_pessoas ps st =
     (fst (achar_pessoas (snd st) ps), fst st @ snd (achar_pessoas (snd st) ps),
      fold registar_conflito (snd (achar_pessoas (snd st) ps)) (snd st))"
proof (induction ps arbitrary: st)
  case Nil
  then show ?case by simp
next
  case (Cons p ps)
  obtain e ks where aa: "achar_associacoes (snd st) p
      (listar_associacoes_pessoa (snd st) (pp_id p)) = (e, ks)"
    by (cases "achar_associacoes (snd st) p (listar_associacoes_pessoa (snd st) (pp_id p))")
  show ?case
  proof (cases e)
    case None
    with aa show ?thesis
      by (simp add: para_associacoes_achar Cons.IH split: prod.splits)
  next
    case (Some err)
    with aa show ?thesis
      by (simp add: para_associacoes_achar)
  qed
qed

text \<open>
  The detection returns the conflicts found (or the exception) and leaves the store with
  these conflicts registered in order.
\<close>

lemma detectar_conflitos_achar:
  "detectar_conflitos_interesse bd sel =
     ((case fst (achar_pessoas bd (pessoas_politicas bd sel)) of
         Some e \<Rightarrow> Inl e
       | None \<Rightarrow> Inr (snd (achar_pessoas bd (pessoas_politicas bd sel)))),
      fold registar_conflito (snd (achar_pessoas bd (pessoas_politicas bd sel))) bd)"
  by (simp add: detectar_conflitos_interesse_def para_pessoas_achar split: option.splits)

lemma registar_conflito_presente:
  "chave_conflito k \<in> chave_row ` set (conflitos_interesse bd) \<Longrightarrow> registar_conflito k bd = bd"
  by (auto simp: registar_conflito_def chave_conflito_def chave_row_def list_ex_iff)

lemma registar_conflito_ausente:
  "chave_conflito k \<notin> chave_row ` set (conflitos_interesse bd)
   \<Longrightarrow> \<not> list_ex (\<lambda>r. ci_pessoa_id r = k_pessoa_id k \<and> ci_id_contrato r = k_id_contrato k)
           (conflitos_interesse bd)"
  by (force simp: chave_conflito_def chave_row_def list_ex_iff)

lemma chaves_registar_conflito:
  "chave_row ` set (conflitos_interesse (registar_conflito k bd))
     = insert (chave_conflito k) (chave_row ` set (conflitos_interesse bd))"
proof (cases "chave_conflito k \<in> chave_row ` set (conflitos_interesse bd)")
  case True
  then show ?thesis by (auto simp: registar_conflito_presente)
next
  case False
  from registar_conflito_ausente [OF False] show ?thesis
    by (simp add: registar_conflito_def chave_conflito_def chave_row_def)
qed

lemma chaves_fold_registar:
  "chave_row ` set (conflitos_interesse (fold registar_conflito ks bd))
     = chave_row ` set (conflitos_interesse bd) \<union> chave_conflito ` set ks"
  by (induction ks arbitrary: bd) (auto simp: chaves_registar_conflito)

lemma fold_registar_presentes:
  "chave_conflito ` set ks \<subseteq> chave_row ` set (conflitos_interesse bd)
   \<Longrightarrow> fold registar_conflito ks bd = bd"
  by (induction ks arbitrary: bd) (simp_all add: registar_conflito_presente)

lemma fold_registar_idem:
  "fold registar_conflito ks (fold registar_conflito ks bd) = fold registar_conflito ks bd"
  by (rule fold_registar_presentes) (simp add: chaves_fold_registar)

lemma registar_conflito_distinct:
  "distinct (map chave_row (conflitos_interesse bd))
   \<Longrightarrow> distinct (map chave_row (conflitos_interesse (registar_conflito k bd)))"
proof (cases "chave_conflito k \<in> chave_row ` set (conflitos_interesse bd)")
  case True
  moreover assume "distinct (map chave_row (conflitos_interesse bd))"
  ultimately show ?thesis by (simp add: registar_conflito_presente)
next
  case False
  moreover assume "distinct (map chave_row (conflitos_interesse bd))"
  ultimately show ?thesis
    using registar_conflito_ausente [OF False]
    by (simp add: registar_conflito_def) (simp add: chave_conflito_def chave_row_def)
qed

lemma fold_registar_distinct:
  "distinct (map chave_row (conflitos_interesse bd))
   \<Longrightarrow> distinct (map chave_row (conflitos_interesse (fold registar_conflito ks bd)))"
  by (induction ks arbitrary: bd) (simp_all add: registar_conflito_distinct)

lemma registar_conflito_acrescenta:
  "\<exists>novos. conflitos_interesse (registar_conflito k bd) = conflitos_interesse bd @ novos"
  by (simp add: registar_conflito_def)

lemma fold_registar_acrescenta:
  "\<exists>novos. conflitos_interesse (fold registar_conflito ks bd) = conflitos_interesse bd @ novos"
proof (induction ks arbitrary: bd)
  case Nil
  then show ?case by simp
next
  case (Cons k ks)
  obtain n1 where "conflitos_interesse (registar_conflito k bd) = conflitos_interesse bd @ n1"
    using registar_conflito_acrescenta by blast
  moreover obtain n2 where "conflitos_interesse (fold registar_conflito ks (registar_conflito k bd))
      = conflitos_interesse (registar_conflito k bd) @ n2"
    using Cons.IH by blast
  ultimately show ?case by simp
qed

section \<open>Detection of conflicts without exceptions\<close>

lemma conflito_de_eq:
  "conflito_de p a c =
     (case row_adjudicante c of
        None \<Rightarrow> Inl AttributeError
      | Some adj \<Rightarrow>
          if any_in entidades_publicas (py_lower adj)
          then (case pp_entidade p of
                  None \<Rightarrow> Inl AttributeError
                | Some ent \<Rightarrow> Inr (Some (conflito_com p a c adj ent)))
          else Inr None)"
  by (simp add: conflito_de_def conflito_com_def gravidade_de_def Let_def
      split: option.splits)


lemma conflito_de_gravidade:
  assumes "conflito_de p a c = Inr (Some k)"
  shows "\<exists>ent adj. pp_entidade p = Some ent \<and> row_adjudicante c = Some adj
           \<and> any_in entidades_publicas (py_lower adj)
           \<and> k_gravidade k = gravidade_de (pp_cargo p) ent adj"
  using assms
  by (auto simp: conflito_de_eq conflito_com_def split: option.splits if_splits)



lemma set_order_by_desc [simp]: "set (order_by_desc key rows) = set rows"
  by (simp add: order_by_desc_def)


lemma order_by_desc_single [simp]: "order_by_desc key [x] = [x]"
  by (simp add: order_by_desc_def)

lemma order_by_desc_Nil [simp]: "order_by_desc key [] = []"
  by (simp add: order_by_desc_def)




lemma pessoas_politicas_origem:
  assumes "p \<in> set (pessoas_politicas bd sel)"
  shows "\<exists>g \<in> set (cargos_politicos bd).
           cg_pessoa_id g = Some (pp_id p) \<and> cg_ativo g \<and> pp_entidade p = cg_entidade g
           \<and> pp_cargo p = cg_cargo g"
  using assms by (auto simp: pessoas_politicas_def)


lemma concat_map_nenhum:
  assumes "\<forall>x \<in> set xs. g x = []"
  shows "concat (map g xs) = []"
  using assms by simp



section \<open>The conflicts of one person and one contract\<close>









section \<open>Running the detection twice\<close>

text \<open>
  C4: a second run of \<open>detectar_conflitos_interesse\<close> on the store that the first run
  left returns what the first returned and leaves the store, and so the table of
  conflicts, as it is. The first run only appends rows to the table, and a table with at
  most one row for each pair (person, contract) keeps that property. This holds also
  when the run ends in an exception.
\<close>

theorem detectar_conflitos_idempotente:
  "(case detectar_conflitos_interesse bd sel of
      (r1, bd1) \<Rightarrow>
        detectar_conflitos_interesse bd1 sel = (r1, bd1)
        \<and> (\<exists>novos. conflitos_interesse bd1 = conflitos_interesse bd @ novos)
        \<and> (distinct (map chave_row (conflitos_interesse bd))
             \<longrightarrow> distinct (map chave_row (conflitos_interesse bd1))))"
  by (simp add: detectar_conflitos_achar fold_registar_idem fold_registar_acrescenta
      fold_registar_distinct cong: option.case_cong)

lemma chaves_cenario:
  "map chave_row (conflitos_interesse (snd (detectar_conflitos_interesse bd_cenario None)))
     = [(1, ''ASSOC001''), (1, ''ASSOC002'')]"
  by code_simp

theorem detectar_conflitos_idempotente_witness:
  "detectar_conflitos_interesse (snd (detectar_conflitos_interesse bd_cenario None)) None
     = detectar_conflitos_interesse bd_cenario None
   \<and> map chave_row (conflitos_interesse (snd (detectar_conflitos_interesse bd_cenario None)))
       = [(1, ''ASSOC001''), (1, ''ASSOC002'')]
   \<and> distinct (map chave_row (conflitos_interesse (snd (detectar_conflitos_interesse bd_cenario None))))"
proof -
  have d0: "distinct (map chave_row (conflitos_interesse bd_cenario))"
    by (simp add: bd_cenario_def)
  from detectar_conflitos_idempotente [where bd = bd_cenario and sel = None] d0 chaves_cenario
  show ?thesis by (simp add: case_prod_beta)
qed


section \<open>Self-dealing: the contract of the person's own body\<close>













section \<open>Positions with an empty holding entity\<close>

lemma str_in_Nil [simp]: "str_in [] s"
  by (cases s) simp_all

lemma conflito_de_entidade_vazia:
  assumes "pp_entidade p = Some []" and "conflito_de p a c = Inr (Some k)"
  shows "k_gravidade k = ''critica''"
  using conflito_de_gravidade [OF assms(2)] assms(1)
  by (auto simp: gravidade_de_def py_lower_def)

lemma achar_contratos_origem:
  assumes "k \<in> set (snd (achar_contratos p a cs))"
  shows "\<exists>c. conflito_de p a c = Inr (Some k)"
  using assms
proof (induction cs)
  case Nil
  then show ?case by simp
next
  case (Cons c cs)
  show ?case
  proof (cases "conflito_de p a c")
    case (Inl e)
    with Cons.prems show ?thesis by simp
  next
    case (Inr r)
    with Cons show ?thesis
      by (cases r) (auto split: prod.splits)
  qed
qed

lemma achar_associacoes_origem:
  assumes "k \<in> set (snd (achar_associacoes bd p as))"
  shows "\<exists>a c. conflito_de p a c = Inr (Some k)"
  using assms
proof (induction as)
  case Nil
  then show ?case by simp
next
  case (Cons a as)
  show ?case
  proof (cases "as_ativo a")
    case False
    with Cons show ?thesis by simp
  next
    case True
    obtain e ks where ac: "achar_contratos p a
        (pesquisar_contratos bd None (Some (as_empresa_nome a))) = (e, ks)"
      by (cases "achar_contratos p a (pesquisar_contratos bd None (Some (as_empresa_nome a)))")
    have ks: "\<forall>k \<in> set ks. \<exists>c. conflito_de p a c = Inr (Some k)"
      using achar_contratos_origem [of _ p a "pesquisar_contratos bd None (Some (as_empresa_nome a))"]
        ac by simp
    from True ac Cons ks show ?thesis
      by (cases e) (auto split: prod.splits; blast)+
  qed
qed

lemma achar_pessoas_origem:
  assumes "k \<in> set (snd (achar_pessoas bd ps))"
  shows "\<exists>p \<in> set ps. \<exists>a c. conflito_de p a c = Inr (Some k)"
  using assms
proof (induction ps)
  case Nil
  then show ?case by simp
next
  case (Cons p ps)
  obtain e ks where aa: "achar_associacoes bd p (listar_associacoes_pessoa bd (pp_id p)) = (e, ks)"
    by (cases "achar_associacoes bd p (listar_associacoes_pessoa bd (pp_id p))")
  have ks: "\<forall>k \<in> set ks. \<exists>a c. conflito_de p a c = Inr (Some k)"
    using achar_associacoes_origem [of _ bd p "listar_associacoes_pessoa bd (pp_id p)"] aa
    by simp
  from aa Cons ks show ?case
    by (cases e) (auto split: prod.splits; blast)+
qed

lemma conflito_de_pessoa_id:
  assumes "conflito_de p a c = Inr (Some k)"
  shows "k_pessoa_id k = pp_id p"
  using assms by (auto simp: conflito_de_eq conflito_com_def split: option.splits if_splits)

lemma linhas_registar_conflito:
  assumes "r \<in> set (conflitos_interesse (registar_conflito k bd))"
  shows "r \<in> set (conflitos_interesse bd)
         \<or> (ci_pessoa_id r = k_pessoa_id k \<and> ci_gravidade r = k_gravidade k)"
  using assms by (auto simp: registar_conflito_def split: if_splits)

lemma linhas_fold_registar:
  assumes "r \<in> set (conflitos_interesse (fold registar_conflito ks bd))"
  shows "r \<in> set (conflitos_interesse bd)
         \<or> (\<exists>k \<in> set ks. ci_pessoa_id r = k_pessoa_id k \<and> ci_gravidade r = k_gravidade k)"
  using assms
proof (induction ks arbitrary: bd)
  case Nil
  then show ?case by simp
next
  case (Cons k ks)
  from Cons.IH [of "registar_conflito k bd"] Cons.prems
  have "r \<in> set (conflitos_interesse (registar_conflito k bd))
        \<or> (\<exists>k' \<in> set ks. ci_pessoa_id r = k_pessoa_id k' \<and> ci_gravidade r = k_gravidade k')"
    by simp
  then show ?case using linhas_registar_conflito [of r k bd] by auto
qed

lemma achados_entidade_vazia:
  assumes vazias: "\<forall>g \<in> set (cargos_politicos bd).
                     cg_pessoa_id g = Some pid \<and> cg_ativo g \<longrightarrow> cg_entidade g = Some []"
    and k: "k \<in> set (snd (achar_pessoas bd (pessoas_politicas bd sel)))"
    and pid: "k_pessoa_id k = pid"
  shows "k_gravidade k = ''critica''"
proof -
  from achar_pessoas_origem [OF k] obtain p a c
    where p: "p \<in> set (pessoas_politicas bd sel)" and cd: "conflito_de p a c = Inr (Some k)"
    by blast
  from conflito_de_pessoa_id [OF cd] pid have "pp_id p = pid" by simp
  with pessoas_politicas_origem [OF p] vazias have "pp_entidade p = Some []" by auto
  from conflito_de_entidade_vazia [OF this cd] show ?thesis .
qed

text \<open>
  C10, as stated, fails: a person with one active position whose holding entity is empty
  and a second active position at another body gets, through the second position,
  conflicts of severity \<open>media\<close>.
\<close>

theorem entidade_vazia_counterexample:
  "list_ex (\<lambda>g. cg_pessoa_id g = Some 1 \<and> cg_ativo g \<and> cg_entidade g = Some [])
     (cargos_politicos bd_entidade_vazia_e_outra)
   \<and> map_sum id (map (\<lambda>k. (k_pessoa_id k, k_id_contrato k, k_gravidade k)))
        (fst (detectar_conflitos_interesse bd_entidade_vazia_e_outra None))
      = Inr [(1, ''ASSOC001'', ''critica''), (1, ''ASSOC002'', ''critica''),
             (1, ''ASSOC001'', ''media''), (1, ''ASSOC002'', ''media'')]"
  by code_simp

text \<open>
  C10, amended: every conflict that the detector builds from a position whose holding
  entity is the empty string has severity \<open>critica\<close>, since the empty string occurs
  in every awarder. Hence, if every active position of a person has an empty holding
  entity (as when the person has one active position, added without an entity), every
  conflict that \<open>detectar_conflitos_interesse\<close> returns for that person, and every row
  that it adds to the table for that person, has severity \<open>critica\<close>.
\<close>

theorem entidade_vazia_critica:
  "(\<forall>p a c k. pp_entidade p = Some [] \<and> conflito_de p a c = Inr (Some k)
       \<longrightarrow> k_gravidade k = ''critica'')
   \<and> ((\<forall>g \<in> set (cargos_politicos bd).
          cg_pessoa_id g = Some pid \<and> cg_ativo g \<longrightarrow> cg_entidade g = Some [])
       \<longrightarrow> (\<forall>ks. fst (detectar_conflitos_interesse bd sel) = Inr ks
               \<longrightarrow> (\<forall>k \<in> set ks. k_pessoa_id k = pid \<longrightarrow> k_gravidade k = ''critica''))
           \<and> (\<forall>r \<in> set (conflitos_interesse (snd (detectar_conflitos_interesse bd sel))).
                 r \<notin> set (conflitos_interesse bd) \<and> ci_pessoa_id r = pid
                 \<longrightarrow> ci_gravidade r = ''critica''))"
proof (intro conjI impI allI ballI)
  fix p a c k
  assume "pp_entidade p = Some [] \<and> conflito_de p a c = Inr (Some k)"
  then show "k_gravidade k = ''critica''"
    using conflito_de_entidade_vazia by blast
next
  fix ks k
  assume vazias: "\<forall>g \<in> set (cargos_politicos bd).
                     cg_pessoa_id g = Some pid \<and> cg_ativo g \<longrightarrow> cg_entidade g = Some []"
    and ret: "fst (detectar_conflitos_interesse bd sel) = Inr ks"
    and k: "k \<in> set ks" and pid: "k_pessoa_id k = pid"
  from ret have "ks = snd (achar_pessoas bd (pessoas_politicas bd sel))"
    by (simp add: detectar_conflitos_achar split: option.splits)
  with k have "k \<in> set (snd (achar_pessoas bd (pessoas_politicas bd sel)))" by simp
  from achados_entidade_vazia [OF vazias this pid] show "k_gravidade k = ''critica''" .
next
  fix r
  assume vazias: "\<forall>g \<in> set (cargos_politicos bd).
                     cg_pessoa_id g = Some pid \<and> cg_ativo g \<longrightarrow> cg_entidade g = Some []"
    and r: "r \<in> set (conflitos_interesse (snd (detectar_conflitos_interesse bd sel)))"
    and novo: "r \<notin> set (conflitos_interesse bd) \<and> ci_pessoa_id r = pid"
  from r have "r \<in> set (conflitos_interesse
      (fold registar_conflito (snd (achar_pessoas bd (pessoas_politicas bd sel))) bd))"
    by (simp add: detectar_conflitos_achar)
  from linhas_fold_registar [OF this] novo obtain k
    where k: "k \<in> set (snd (achar_pessoas bd (pessoas_politicas bd sel)))"
      and rk: "ci_pessoa_id r = k_pessoa_id k" "ci_gravidade r = k_gravidade k"
    by blast
  from rk novo have "k_pessoa_id k = pid" by simp
  from achados_entidade_vazia [OF vazias k this] rk show "ci_gravidade r = ''critica''" by simp
qed

lemma ids_entidade_vazia:
  "map_sum id (map (\<lambda>k. (k_pessoa_id k, k_id_contrato k)))
     (fst (detectar_conflitos_interesse bd_entidade_vazia None))
   = Inr [(1, ''ASSOC001''), (1, ''ASSOC002'')]"
  by code_simp

theorem entidade_vazia_critica_witness:
  "\<exists>ks. fst (detectar_conflitos_interesse bd_entidade_vazia None) = Inr ks
         \<and> map (\<lambda>k. (k_pessoa_id k, k_id_contrato k)) ks = [(1, ''ASSOC001''), (1, ''ASSOC002'')]
         \<and> list_all (\<lambda>k. k_gravidade k = ''critica'') ks"
proof -
  have vazias: "\<forall>g \<in> set (cargos_politicos bd_entidade_vazia).
                  cg_pessoa_id g = Some 1 \<and> cg_ativo g \<longrightarrow> cg_entidade g = Some []"
    by (simp add: bd_entidade_vazia_def)
  from ids_entidade_vazia obtain ks
    where ret: "fst (detectar_conflitos_interesse bd_entidade_vazia None) = Inr ks"
      and ids: "map (\<lambda>k. (k_pessoa_id k, k_id_contrato k)) ks = [(1, ''ASSOC001''), (1, ''ASSOC002'')]"
    by (cases "fst (detectar_conflitos_interesse bd_entidade_vazia None)") auto
  from ids have "\<forall>k \<in> set ks. k_pessoa_id k = 1" by auto
  with entidade_vazia_critica [where bd = bd_entidade_vazia and pid = 1 and sel = None] vazias ret
  have "\<forall>k \<in> set ks. k_gravidade k = ''critica''" by blast
  with ret ids show ?thesis by (auto simp: list_all_iff)
qed


section \<open>Connections at depth 1\<close>

lemma conexoes_de_destino:
  assumes "k \<in> set (conexoes_de bd atual n0 visitados)"
  shows "destino_id k \<noteq> atual \<and> destino_id k \<notin> visitados \<and> origem_id k = atual
         \<and> nivel k = n0 + 1"
  using assms
  by (auto simp: conexoes_de_def split: option.splits if_splits)

lemma explorar_profundidade_1:
  "explorar bd 1 [(a, 0, None)] {} [] = Some (conexoes_de bd a 0 {a})"
  by (subst explorar.simps, simp, subst explorar.simps, simp)

text \<open>
  C7: for every store and every start figure, \<open>detetar_conexoes\<close> at depth 1 returns,
  and no connection it returns has the start figure as its destination; each goes from
  the start figure, at level 1.
\<close>

theorem detetar_conexoes_nunca_origem:
  "\<exists>cs. detetar_conexoes bd a 1 = Some cs
         \<and> (\<forall>k \<in> set cs. destino_id k \<noteq> a \<and> origem_id k = a \<and> nivel k = 1)"
  using conexoes_de_destino [of _ bd a 0 "{a}"]
  by (auto simp: detetar_conexoes_def explorar_profundidade_1)

lemma conexoes_cenario:
  "map destino_id (conexoes_de bd_cenario 1 0 {1}) = [2]"
  by code_simp

theorem detetar_conexoes_nunca_origem_witness:
  "\<exists>cs. detetar_conexoes bd_cenario 1 1 = Some cs \<and> map destino_id cs = [2]
         \<and> list_all (\<lambda>k. destino_id k \<noteq> 1) cs"
  using detetar_conexoes_nunca_origem [of bd_cenario 1] conexoes_cenario
  by (auto simp: detetar_conexoes_def explorar_profundidade_1 list_all_iff)


section \<open>LIKE and substrings\<close>





lemma lower_char_ascii_lower: "lower_char (ascii_lower c) = lower_char c"
  by (auto simp: lower_char_def ascii_lower_def Let_def)

lemma py_lower_ascii_lower: "py_lower (map ascii_lower s) = py_lower s"
  by (simp add: py_lower_def lower_char_ascii_lower)



section \<open>Search by a name that no person has\<close>





section \<open>The store under the analysis\<close>

lemma mantem_refl [simp]: "mantem b h h"
  by (simp add: mantem_def)

lemma mantem_trans:
  "mantem b h h1 \<Longrightarrow> mantem b h1 h2 \<Longrightarrow> mantem b h h2"
  by (auto simp: mantem_def)

lemma mantem_menor:
  "mantem b h h' \<Longrightarrow> b' \<le> b \<Longrightarrow> mantem b' h h'"
  by (auto simp: mantem_def)

lemma mantem_nova_lista:
  "b \<le> prox h \<Longrightarrow> mantem b h (snd (nova_lista xs h))"
  by (auto simp: mantem_def nova_lista_def)

lemma mantem_append_h:
  "b \<le> g \<Longrightarrow> mantem b h (append_h g a h)"
  by (auto simp: mantem_def append_h_def)

lemma mantem_ordenar_por_data_h:
  "b \<le> g \<Longrightarrow> mantem b h (snd (ordenar_por_data_h g h))"
  by (auto simp: mantem_def ordenar_por_data_h_def)

lemma mantem_conteudo:
  "mantem b h h' \<Longrightarrow> l < b \<Longrightarrow> conteudo h' l = conteudo h l"
  by (simp add: mantem_def conteudo_def)

lemma vista_fora:
  assumes "g \<notin> snd ` set pares" and "dicts h' = dicts h"
    and "\<forall>a. a \<noteq> g \<longrightarrow> listas h' a = listas h a"
  shows "vista h' pares = vista h pares"
  using assms by (auto simp: vista_def conteudo_def)

lemma inserir_par_novo:
  "k \<notin> fst ` set pp \<Longrightarrow> inserir_par k x pp = pp @ [(k, [x])]"
  by (induction pp) auto

lemma vista_append_h:
  assumes "distinct (map snd pares)" and "map_of pares k = Some g"
  shows "vista (append_h g a h) pares = inserir_par k (dicts h a) (vista h pares)"
  using assms
proof (induction pares)
  case Nil
  then show ?case by simp
next
  case (Cons kg pares)
  obtain k' g' where kg: "kg = (k', g')" by (cases kg)
  show ?case
  proof (cases "k = k'")
    case True
    with Cons.prems kg have g: "g' = g" and fora: "g \<notin> snd ` set pares" by auto
    have "vista (append_h g a h) pares = vista h pares"
      by (rule vista_fora [OF fora]) (simp_all add: append_h_def)
    with True kg g show ?thesis
      by (simp add: vista_def conteudo_def append_h_def)
  next
    case False
    with Cons.prems kg have m: "map_of pares k = Some g" by simp
    then have "(k, g) \<in> set pares" by (rule map_of_SomeD)
    then have "g \<in> snd ` set pares" by force
    with Cons.prems kg have "g' \<noteq> g" by auto
    moreover have "vista (append_h g a h) pares = inserir_par k (dicts h a) (vista h pares)"
      using Cons.IH Cons.prems m by simp
    ultimately show ?thesis using False kg
      by (simp add: vista_def conteudo_def append_h_def)
  qed
qed

lemma grupos_ok_append_h:
  "grupos_ok b h pares \<Longrightarrow> grupos_ok b (append_h g a h) pares"
  by (simp add: grupos_ok_def append_h_def)

lemma vista_chaves: "fst ` set (vista h pares) = fst ` set pares"
  by (force simp: vista_def)

lemma agrupar_h_correto:
  assumes "grupos_ok b h pares"
  shows "\<exists>r h'. agrupar_h f as pares h = (r, h') \<and> mantem b h h'
           \<and> (case r of
                 Inl e \<Rightarrow> agrupar f (map (dicts h) as) (vista h pares) = Inl e
               | Inr pares' \<Rightarrow>
                   agrupar f (map (dicts h) as) (vista h pares) = Inr (vista h' pares')
                   \<and> grupos_ok b h' pares')"
  using assms
proof (induction as arbitrary: pares h)
  case Nil
  then show ?case by simp
next
  case (Cons a as)
  show ?case
  proof (cases "f (dicts h a)")
    case (Inl e)
    then show ?thesis by simp
  next
    case (Inr k)
    show ?thesis
    proof (cases "map_of pares k")
      case (Some g)
      let ?h1 = "append_h g a h"
      have d: "distinct (map snd pares)" using Cons.prems by (simp add: grupos_ok_def)
      have "(k, g) \<in> set pares" using Some by (rule map_of_SomeD)
      then have "b \<le> g" using Cons.prems by (auto simp: grupos_ok_def list_all_iff)
      then have m1: "mantem b h ?h1" by (rule mantem_append_h)
      have v1: "vista ?h1 pares = inserir_par k (dicts h a) (vista h pares)"
        by (rule vista_append_h [OF d Some])
      have d1: "dicts ?h1 = dicts h" by (simp add: append_h_def)
      from Cons.IH [OF grupos_ok_append_h [OF Cons.prems], of g a]
      obtain r h' where r: "agrupar_h f as pares ?h1 = (r, h')" "mantem b ?h1 h'"
        "(case r of
            Inl e \<Rightarrow> agrupar f (map (dicts ?h1) as) (vista ?h1 pares) = Inl e
          | Inr pares' \<Rightarrow>
              agrupar f (map (dicts ?h1) as) (vista ?h1 pares) = Inr (vista h' pares')
              \<and> grupos_ok b h' pares')"
        by blast
      from r Inr Some v1 d1 mantem_trans [OF m1 r(2)] show ?thesis
        by (auto split: sum.splits)
    next
      case None
      let ?g = "prox h"
      let ?h0 = "snd (nova_lista [] h)"
      let ?h1 = "append_h ?g a ?h0"
      let ?pares1 = "pares @ [(k, ?g)]"
      have bp: "b \<le> prox h" using Cons.prems by (simp add: grupos_ok_def)
      have fora: "?g \<notin> snd ` set pares"
        using Cons.prems by (auto simp: grupos_ok_def list_all_iff)
      have kfora: "k \<notin> fst ` set pares"
        using None by (simp add: map_of_eq_None_iff)
      have m1: "mantem b h ?h1"
        using mantem_trans [OF mantem_nova_lista [OF bp] mantem_append_h [OF bp]] .
      have d1: "dicts ?h1 = dicts h" by (simp add: append_h_def nova_lista_def)
      have "vista ?h1 pares = vista h pares"
        by (rule vista_fora [OF fora]) (simp_all add: append_h_def nova_lista_def)
      then have v1: "vista ?h1 ?pares1 = inserir_par k (dicts h a) (vista h pares)"
        using kfora
        by (simp add: inserir_par_novo vista_chaves)
           (simp add: vista_def conteudo_def append_h_def nova_lista_def)
      have ok1: "grupos_ok b ?h1 ?pares1"
        using Cons.prems fora kfora bp
        by (auto simp: grupos_ok_def append_h_def nova_lista_def list_all_iff)
      from Cons.IH [OF ok1]
      obtain r h' where r: "agrupar_h f as ?pares1 ?h1 = (r, h')" "mantem b ?h1 h'"
        "(case r of
            Inl e \<Rightarrow> agrupar f (map (dicts ?h1) as) (vista ?h1 ?pares1) = Inl e
          | Inr pares' \<Rightarrow>
              agrupar f (map (dicts ?h1) as) (vista ?h1 ?pares1) = Inr (vista h' pares')
              \<and> grupos_ok b h' pares')"
        by blast
      from r Inr None v1 d1 mantem_trans [OF m1 r(2)] show ?thesis
        by (auto simp: nova_lista_def split: sum.splits)
    qed
  qed
qed


section \<open>The rules on the store and on the list of contracts\<close>

lemma map_insort_key:
  "map f (insort_key (\<lambda>x. g (f x)) x xs) = insort_key g (f x) (map f xs)"
  by (induction xs) simp_all

lemma map_sort_key:
  "map f (sort_key (\<lambda>x. g (f x)) xs) = sort_key g (map f xs)"
  by (induction xs) (simp_all add: map_insort_key)

lemma bind_err_Inr [simp]: "bind_err r Inr = r"
  by (cases r) simp_all

lemma bind_err_Inr' [simp]: "bind_err r (\<lambda>x. Inr x) = r"
  by (cases r) simp_all

lemma ordenar_por_data_h_correto:
  "(case ordenar_por_data_h g h of
      (Inl e, h') \<Rightarrow> ordenar_por_data (conteudo h g) = Inl e
    | (Inr u, h') \<Rightarrow> ordenar_por_data (conteudo h g) = Inr (conteudo h' g)
                     \<and> dicts h' = dicts h
                     \<and> (\<forall>a. a \<noteq> g \<longrightarrow> listas h' a = listas h a))"
  by (simp add: ordenar_por_data_h_def ordenar_por_data_def conteudo_def list_ex_iff
      map_sort_key)

lemma fracionamento_pares_h_correto:
  assumes "distinct (map snd pares)" and "list_all (\<lambda>kg. b \<le> snd kg) pares"
  shows "fst (fracionamento_pares_h cfg pares h) = for_each (fracionamento_par cfg) (vista h pares)
         \<and> mantem b h (snd (fracionamento_pares_h cfg pares h))"
  using assms
proof (induction pares arbitrary: h)
  case Nil
  then show ?case by (simp add: vista_def)
next
  case (Cons kg pares)
  obtain par0 par1 par2 par3 g where kg: "kg = ((par0, par1, par2, par3), g)"
    by (cases kg) auto
  have fora: "g \<notin> snd ` set pares" and d: "distinct (map snd pares)"
    and bg: "b \<le> g" and bs: "list_all (\<lambda>kg. b \<le> snd kg) pares"
    using Cons.prems kg by auto
  have v: "vista h (((par0, par1, par2, par3), g) # pares)
             = ((par0, par1, par2, par3), conteudo h g) # vista h pares"
    by (simp add: vista_def)
  have len: "length (conteudo h g) = length (listas h g)" by (simp add: conteudo_def)
  let ?fp = "fracionamento_par cfg ((par0, par1, par2, par3), conteudo h g)"
  show ?case
  proof (cases "int (length (listas h g)) < cfg_min_contratos_fracionamento cfg")
    case True
    then have fp: "?fp = Inr []" by (simp add: fracionamento_par_def len)
    with True Cons.IH [OF d bs, of h] show ?thesis
      by (simp add: kg v)
  next
    case False
    obtain r h' where o: "ordenar_por_data_h g h = (r, h')"
      by (cases "ordenar_por_data_h g h")
    have m: "mantem b h h'" using mantem_ordenar_por_data_h [OF bg, where h = h] o by simp
    show ?thesis
    proof (cases r)
      case (Inl e)
      with ordenar_por_data_h_correto [where g = g and h = h] o False
      have fp: "?fp = Inl e" by (simp add: fracionamento_par_def len)
      with Inl o False m show ?thesis
        by (simp add: kg v)
    next
      case (Inr u)
      with ordenar_por_data_h_correto [where g = g and h = h] o
      have s: "ordenar_por_data (conteudo h g) = Inr (conteudo h' g)"
        and dh: "dicts h' = dicts h" and lh: "\<forall>a. a \<noteq> g \<longrightarrow> listas h' a = listas h a"
        by simp_all
      have vr: "vista h' pares = vista h pares"
        by (rule vista_fora [OF fora dh lh])
      have fp: "?fp = janelas_fracionamento cfg par0 par1 (conteudo h' g)"
        using False s by (simp add: fracionamento_par_def len)
      show ?thesis
      proof (cases "janelas_fracionamento cfg par0 par1 (conteudo h' g)")
        case (Inl e)
        with Inr o False m fp show ?thesis
          by (simp add: kg v)
      next
        case ps: (Inr ps)
        from Cons.IH [OF d bs, of h'] vr
        have ih: "for_each (fracionamento_par cfg) (vista h pares)
                    = fst (fracionamento_pares_h cfg pares h')"
          and mh: "mantem b h' (snd (fracionamento_pares_h cfg pares h'))"
          by simp_all
        obtain r2 h2 where f2: "fracionamento_pares_h cfg pares h' = (r2, h2)"
          by (cases "fracionamento_pares_h cfg pares h'")
        from ih mh f2 have r2: "for_each (fracionamento_par cfg) (vista h pares) = r2"
          and m2: "mantem b h h2" using mantem_trans [OF m] by simp_all
        from ps Inr o False fp f2 r2 m2 show ?thesis
          by (cases r2) (simp_all add: kg v)
      qed
    qed
  qed
qed

lemma grupos_ok_Nil: "b \<le> prox h \<Longrightarrow> grupos_ok b h []"
  by (simp add: grupos_ok_def)

lemma detectar_fracionamento_h_correto:
  assumes "l < prox h"
  shows "fst (detectar_fracionamento_h cfg l h) = detectar_fracionamento cfg (conteudo h l)
         \<and> mantem (prox h) h (snd (detectar_fracionamento_h cfg l h))"
proof -
  from agrupar_h_correto [OF grupos_ok_Nil [OF order_refl], of par_fracionamento "listas h l" h]
  obtain r h' where a: "agrupar_h par_fracionamento (listas h l) [] h = (r, h')"
    and m: "mantem (prox h) h h'"
    and c: "(case r of
               Inl e \<Rightarrow> agrupar par_fracionamento (map (dicts h) (listas h l)) (vista h []) = Inl e
             | Inr pares' \<Rightarrow>
                 agrupar par_fracionamento (map (dicts h) (listas h l)) (vista h [])
                   = Inr (vista h' pares')
                 \<and> grupos_ok (prox h) h' pares')"
    by blast
  show ?thesis
  proof (cases r)
    case (Inl e)
    with a m c show ?thesis
      by (simp add: detectar_fracionamento_h_def detectar_fracionamento_def vista_def
          conteudo_def)
  next
    case (Inr pares)
    with c have g: "agrupar par_fracionamento (conteudo h l) [] = Inr (vista h' pares)"
      and ok: "grupos_ok (prox h) h' pares" by (simp_all add: vista_def conteudo_def)
    from ok have "distinct (map snd pares)" "list_all (\<lambda>kg. prox h \<le> snd kg) pares"
      by (auto simp: grupos_ok_def list_all_iff)
    from fracionamento_pares_h_correto [OF this, of cfg h'] Inr a g mantem_trans [OF m]
    show ?thesis
      by (simp add: detectar_fracionamento_h_def detectar_fracionamento_def)
  qed
qed

lemma detectar_contratos_repetidos_h_correto:
  assumes "l < prox h"
  shows "fst (detectar_contratos_repetidos_h cfg l h)
           = detectar_contratos_repetidos cfg (conteudo h l)
         \<and> mantem (prox h) h (snd (detectar_contratos_repetidos_h cfg l h))"
proof -
  from agrupar_h_correto [OF grupos_ok_Nil [OF order_refl], of par_repetidos "listas h l" h]
  obtain r h' where a: "agrupar_h par_repetidos (listas h l) [] h = (r, h')"
    and m: "mantem (prox h) h h'"
    and c: "(case r of
               Inl e \<Rightarrow> agrupar par_repetidos (map (dicts h) (listas h l)) (vista h []) = Inl e
             | Inr pares' \<Rightarrow>
                 agrupar par_repetidos (map (dicts h) (listas h l)) (vista h [])
                   = Inr (vista h' pares')
                 \<and> grupos_ok (prox h) h' pares')"
    by blast
  from a m c show ?thesis
    by (cases r)
       (simp_all add: detectar_contratos_repetidos_h_def detectar_contratos_repetidos_def
          vista_def conteudo_def)
qed

lemma detectar_concentracao_temporal_h_correto:
  "fst (detectar_concentracao_temporal_h cfg l h)
     = detectar_concentracao_temporal cfg (conteudo h l)
   \<and> mantem (prox h) h (snd (detectar_concentracao_temporal_h cfg l h))"
proof -
  let ?P = "\<lambda>c. truthy (get_none (data_contrato c))"
  have f: "map (dicts h) (filter (\<lambda>a. ?P (dicts h a)) (listas h l)) = filter ?P (conteudo h l)"
    by (simp add: conteudo_def filter_map comp_def)
  have e: "filter (\<lambda>a. ?P (dicts h a)) (listas h l) = [] \<longleftrightarrow> filter ?P (conteudo h l) = []"
    using f by (metis map_is_Nil_conv)
  show ?thesis
    using f e
    by (simp add: detectar_concentracao_temporal_h_def detectar_concentracao_temporal_def
        nova_lista_def Let_def conteudo_def map_sort_key mantem_def)
qed


section \<open>The analysis keeps the contracts\<close>

lemma cumpre_entao:
  assumes "cumpre b h0 r x"
    and "\<And>ps h. mantem b h0 h \<Longrightarrow> cumpre b h0 (f ps h) (F ps)"
  shows "cumpre b h0 (entao_h r f) (bind_err x F)"
proof (cases r)
  case (Pair res h)
  with assms show ?thesis
    by (cases res) (auto simp: cumpre_def entao_h_def)
qed

lemma cumpre_quando:
  assumes m: "mantem b h0 h" and l: "l < b" and bp: "b \<le> prox h0"
    and R: "\<And>h. l < prox h \<Longrightarrow> cumpre (prox h) h (Rh h) (R (conteudo h l))"
  shows "cumpre b h0 (quando_h flag Rh ps h) (quando flag (R (conteudo h0 l)) ps)"
proof (cases flag)
  case False
  with m show ?thesis by (simp add: cumpre_def quando_h_def quando_def)
next
  case True
  have bh: "b \<le> prox h" using m bp by (simp add: mantem_def)
  with l have "l < prox h" by simp
  from R [OF this] have f: "fst (Rh h) = R (conteudo h l)"
    and k: "mantem (prox h) h (snd (Rh h))" by (simp_all add: cumpre_def)
  have c: "conteudo h l = conteudo h0 l" by (rule mantem_conteudo [OF m l])
  have k': "mantem b h0 (snd (Rh h))"
    by (rule mantem_trans [OF m mantem_menor [OF k bh]])
  obtain res h' where rh: "Rh h = (res, h')" by (cases "Rh h")
  with f c have x: "R (conteudo h0 l) = res" by simp
  from rh k' have y: "mantem b h0 h'" by simp
  show ?thesis
    by (cases res) (simp_all add: cumpre_def quando_h_def quando_def True rh x y)
qed

lemma cumpre_puro:
  "cumpre (prox h) h (R (conteudo h l), h) (R (conteudo h l))"
  by (simp add: cumpre_def)

lemma analisar_contratos_h_cumpre:
  assumes "l < prox h"
  shows "cumpre (prox h) h (analisar_contratos_h cfg l h) (analisar_contratos cfg (conteudo h l))"
  unfolding analisar_contratos_h_def analisar_contratos_def
  by (intro cumpre_entao cumpre_quando [where l = l] cumpre_puro assms order_refl mantem_refl)
     (simp_all add: cumpre_def detectar_fracionamento_h_correto
        detectar_contratos_repetidos_h_correto detectar_concentracao_temporal_h_correto)

text \<open>
  C9: the analysis, run on a store with the list of contracts at an address in use,
  leaves every dictionary and every list object that was there as it was, the list of
  contracts among them; what it writes are list objects of its own. What it returns is
  \<open>analisar_contratos\<close> of the configuration and of the contracts in the list, a
  function of these two alone.
\<close>

theorem analisar_contratos_nao_altera:
  assumes "l < prox h"
  shows "(case analisar_contratos_h cfg l h of
            (r, h') \<Rightarrow>
              r = analisar_contratos cfg (conteudo h l)
              \<and> dicts h' = dicts h
              \<and> (\<forall>a. a < prox h \<longrightarrow> listas h' a = listas h a)
              \<and> conteudo h' l = conteudo h l)"
proof -
  obtain r h' where a: "analisar_contratos_h cfg l h = (r, h')"
    by (cases "analisar_contratos_h cfg l h")
  from analisar_contratos_h_cumpre [OF assms, of cfg] a
  have r: "r = analisar_contratos cfg (conteudo h l)" and m: "mantem (prox h) h h'"
    by (simp_all add: cumpre_def)
  from m have "dicts h' = dicts h" "\<forall>a. a < prox h \<longrightarrow> listas h' a = listas h a"
    by (simp_all add: mantem_def)
  with r a mantem_conteudo [OF m assms] show ?thesis by simp
qed

lemma heap_exemplo_depois:
  "listas (snd (analisar_contratos_h default_config 0 heap_exemplo)) 1 = [1, 2, 0]"
  by code_simp

theorem analisar_contratos_nao_altera_witness:
  "fst (analisar_contratos_h default_config 0 heap_exemplo)
     = analisar_contratos default_config (conteudo heap_exemplo 0)
   \<and> dicts (snd (analisar_contratos_h default_config 0 heap_exemplo)) = dicts heap_exemplo
   \<and> listas (snd (analisar_contratos_h default_config 0 heap_exemplo)) 0 = [0, 1, 2]
   \<and> listas (snd (analisar_contratos_h default_config 0 heap_exemplo)) 1 = [1, 2, 0]
   \<and> conteudo (snd (analisar_contratos_h default_config 0 heap_exemplo)) 0
       = conteudo heap_exemplo 0"
proof -
  have l: "0 < prox heap_exemplo" by (simp add: heap_exemplo_def)
  have l0: "listas heap_exemplo 0 = [0, 1, 2]" by (simp add: heap_exemplo_def)
  from analisar_contratos_nao_altera [OF l, of default_config] heap_exemplo_depois l l0
  show ?thesis by (simp add: case_prod_beta)
qed

end
